theory Spec2Isabelle
  imports Complex_Main "HOL-Library.AList" "HOL-Library.Sublist"
begin

section \<open>Values of the shapefile importer\<close>

text \<open>
  The development embeds \<open>src/SHPImporter.ts\<close>. A JavaScript number is a finite value or
  one of the three special values; only finiteness, integrality and printing of numbers
  are used by the importer, and the single arithmetic operation on coordinates is the
  multiplication by \<open>SCALE = 1\<close>, which is exact, so finite numbers are reals here.
\<close>

datatype js_number = Finite real | PosInfinity | NegInfinity | NaN

fun isFinite :: "js_number \<Rightarrow> bool" where
  "isFinite (Finite r) = True"
| "isFinite PosInfinity = False"
| "isFinite NegInfinity = False"
| "isFinite NaN = False"

fun isNaN :: "js_number \<Rightarrow> bool" where
  "isNaN NaN = True"
| "isNaN (Finite r) = False"
| "isNaN PosInfinity = False"
| "isNaN NegInfinity = False"

fun isInteger :: "js_number \<Rightarrow> bool" where
  "isInteger (Finite r) = (r = of_int \<lfloor>r\<rfloor>)"
| "isInteger PosInfinity = False"
| "isInteger NegInfinity = False"
| "isInteger NaN = False"

text \<open>A \<open>Date\<close> holds a time value in milliseconds, or none when it is an invalid date.\<close>

datatype Date = Date (time_value: "int option")

definition valueOf :: "Date \<Rightarrow> js_number" where
  "valueOf d = (case time_value d of None \<Rightarrow> NaN | Some t \<Rightarrow> Finite (of_int t))"

text \<open>
  \<open>PropertyValue = number | string | boolean | Date\<close>. The default arms of the source
  also receive whatever else the decoder hands over (\<open>null\<close>, an object); \<open>POther\<close>
  stands for such a value, carrying its printed form.
\<close>

datatype PropertyValue =
    PNumber js_number
  | PString string
  | PBoolean bool
  | PDate Date
  | POther string

datatype PropertyType = TNumber | TString | TBoolean | TDate

type_synonym Properties = "(string \<times> PropertyValue) list"

type_synonym PropNames = "(string \<times> (PropertyType \<times> PropertyValue) list) list"

subsection \<open>Printing\<close>

definition digit_char :: "nat \<Rightarrow> char" where
  "digit_char d = ''0123456789'' ! d"

fun nat_toString :: "nat \<Rightarrow> string" where
  "nat_toString n =
     (if n < 10 then [digit_char n] else nat_toString (n div 10) @ [digit_char (n mod 10)])"

declare nat_toString.simps [simp del]

definition int_toString :: "int \<Rightarrow> string" where
  "int_toString i = (if i < 0 then CHR ''-'' # nat_toString (nat (- i)) else nat_toString (nat i))"

subsection \<open>Objects and the members they inherit\<close>

text \<open>
  The objects the importer uses as dictionaries (\<open>groups\<close>, \<open>propNames\<close>, \<open>geoJSONs\<close>,
  the layer data) are made by \<open>{}\<close>, and the attribute objects of the features come from
  the decoder as plain objects: each is the list of the entries it owns, over
  \<open>Object.prototype\<close>. Reading \<open>obj[k]\<close> finds the entry the object owns under \<open>k\<close>;
  when it owns none, it finds the member of \<open>Object.prototype\<close> called \<open>k\<close> (a function,
  and under \<open>__proto__\<close> the prototype itself), and only otherwise \<open>undefined\<close>. The members
  are those of the language standard; none of them is enumerable, so a \<open>for\<close>-\<open>in\<close> loop
  visits the owned entries only. A list stands for an object when its keys are distinct.

  \<open>Object.prototype\<close> is taken as the standard one whenever a function of the importer is
  called. The two places where the importer writes to what it found under a key
  (\<open>group[extension] = \<dots>\<close> and \<open>propNames[propName][type] = \<dots>\<close>) write to an inherited
  member when the key is the name of one; the object read from gains no entry then, which
  is what the model records. The write itself lands on an object shared by the whole
  program: on a function, where nothing the importer does reads it, and under the one key
  \<open>__proto__\<close> on \<open>Object.prototype\<close>, where it adds an enumerable member that later loops
  would visit. The model does not follow the shared object, so a run in which a file's
  base name or a catalogued field is called \<open>__proto__\<close> is represented up to that write
  only.
\<close>

definition Object_prototype :: "string list" where
  "Object_prototype =
     [''constructor'', ''__defineGetter__'', ''__defineSetter__'', ''hasOwnProperty'',
      ''__lookupGetter__'', ''__lookupSetter__'', ''isPrototypeOf'', ''propertyIsEnumerable'',
      ''toString'', ''valueOf'', ''__proto__'', ''toLocaleString'']"

datatype 'a js_property = Own 'a | Inherited | Undefined

definition get_property :: "(string \<times> 'a) list \<Rightarrow> string \<Rightarrow> 'a js_property" where
  "get_property obj k =
     (case map_of obj k of
        Some v \<Rightarrow> Own v
      | None \<Rightarrow> if k \<in> set Object_prototype then Inherited else Undefined)"

text \<open>
  The assignment \<open>obj[k] = v\<close> of an object \<open>v\<close>: it replaces the entry owned under
  \<open>k\<close>, or adds one at the end. Under \<open>__proto__\<close>, when the object owns no such entry,
  the assignment goes to the inherited setter, which makes \<open>v\<close> the prototype of the object:
  the object gains no entry. (An inherited function does not stand in the way of an
  assignment: \<open>obj['toString'] = v\<close> adds an entry.)
\<close>

definition set_property :: "(string \<times> 'a) list \<Rightarrow> string \<Rightarrow> 'a \<Rightarrow> (string \<times> 'a) list" where
  "set_property obj k v =
     (if k = ''__proto__'' \<and> map_of obj k = None then obj else AList.update k v obj)"

section \<open>Data of the importer\<close>

text \<open>
  A coordinate is a \<open>vec2\<close> or a \<open>vec3\<close>; \<open>bbox\<close> is carried by line strings and
  polygons and never read. The last constructor of \<open>Geometry\<close> is a geometry of a kind the
  declared type excludes, which the default arm of \<open>featureGeometry\<close> reports.
\<close>

datatype Coord = Vec2 real real | Vec3 real real real

type_synonym vec3 = "real \<times> real \<times> real"

datatype Geometry =
    Point Coord
  | LineString "Coord list" "real list"
  | Polygon "Coord list list" "real list"
  | MultiPoint "Coord list"
  | MultiLineString "Coord list list"
  | MultiPolygon "Coord list list list"
  | OtherGeometry string

datatype Feature = Feature Geometry Properties | OtherFeature string

datatype GeoJSON = FeatureCollection "Feature list" | OtherGeoJSON string

text \<open>
  A \<open>ShapeGroup\<close> maps a file role (the extension) to the buffer of that file; the
  groups map a base name to its \<open>ShapeGroup\<close>. A JavaScript object enumerates the keys
  that are array indices first, in numeric order, and then its other keys in insertion
  order. The association lists, updated by \<open>AList.update\<close>, keep all keys in insertion
  order; no statement below depends on the order of keys.
\<close>

type_synonym ShapeGroup = "(string \<times> nat list) list"

type_synonym Groups = "(string \<times> ShapeGroup) list"

datatype MimeType = MimeFolder | MimeOther string

text \<open>
  What \<open>item.get()\<close> resolves to is a view of bytes: the buffer behind it, and the window
  of the buffer the view shows. The importer keeps \<open>bytes.buffer\<close>, the whole buffer.
\<close>

datatype Bytes = Bytes (buffer: "nat list") (byteOffset: nat) (byteLength: nat)

datatype WorkspaceItem =
  WorkspaceItem (title: string) (mimeType: MimeType) (content: Bytes)
    (children: "WorkspaceItem list")

record Workspace =
  origin :: "string option"
  root :: WorkspaceItem

text \<open>
  A \<open>DwgTypedObject\<close> is a dictionary whose entries are typed property objects
  (\<open>$value\<close> with an optional \<open>$type\<close> tag), a type of the drawing (\<open>$type\<close>) or plain
  text (the \<open>name\<close> that \<open>assignLayerName\<close> stores).
\<close>

datatype DwgValue = TypedValue PropertyValue "string option" | TypeItem string | Text string

type_synonym DwgTypedObject = "(string \<times> DwgValue) list"

datatype QuickPickItemKind = Default | Separator

record QuickPickItem =
  label :: string
  kind :: QuickPickItemKind
  detail :: string

text \<open>\<open>drawing.layouts?.model\<close>: the layouts may be missing, and so may the model layout.\<close>

record Layouts =
  model :: "nat option"

record Drawing =
  layouts :: "Layouts option"

section \<open>The host\<close>

text \<open>
  Every call the importer makes to its collaborators is an event; the trace of a run is
  the list of its events in order. Layers and entities are known by the position of the
  event that created them.
\<close>

datatype exn = HostError string

datatype message = MsgImportShapeFrom | MsgReadingFile | MsgExamples | MsgChooseFields

datatype event =
    BeginProgress
  | EndProgress
  | CreateOutputChannel string
  | OutputsInfo string
  | OutputsError string string
  | OutputsErrorExn exn
  | ProgressIndeterminate bool
  | ProgressDetails string
  | ProgressLabel string
  | ProgressPercents real
  | Propfind string
  | ItemGet string
  | Shp ShapeGroup
  | ShowQuickPick "QuickPickItem list" string bool
  | LayersBeginUpdate
  | LayersEndUpdate
  | LayoutEditor
  | BeginEdit
  | EndEdit
  | LayersAdd DwgTypedObject
  | SetDisabled nat
  | SetxLayer nat nat
  | AddCircle vec3 real
  | AddLine vec3 vec3
  | AddPolyline3d "vec3 list"

text \<open>
  What the importer needs from the language run time, the user's locale and the host:
  \<open>Date.prototype.toLocaleString\<close> and \<open>toString\<close>; what
  \<open>Number.prototype.toString\<close> prints for a finite number that is not a whole number of
  magnitude at most \<open>2^53\<close> (the shortest digits that read back as the same double); the
  translation of a message (the source's Russian texts are the four \<open>message\<close>s); the
  decoder \<open>shp\<close>; the user's choice in the quick pick; and \<open>rejects\<close>, which says for
  the trace up to and including an awaited call whether that call throws, and what.
\<close>

record host =
  toLocaleString :: "Date \<Rightarrow> string"
  dateToString :: "Date \<Rightarrow> string"
  shortestDigits :: "real \<Rightarrow> string"
  tr :: "message \<Rightarrow> string list \<Rightarrow> string"
  shp :: "ShapeGroup \<Rightarrow> GeoJSON"
  showQuickPick :: "QuickPickItem list \<Rightarrow> QuickPickItem list"
  rejects :: "event list \<Rightarrow> exn option"

text \<open>
  \<open>Number.prototype.toString\<close>. Every whole number of magnitude at most \<open>2^53\<close> is a
  double, and so is each of its neighbours, so the shortest digits that read back as it are
  its own decimal digits. Beyond \<open>2^53\<close> the doubles are more than 1 apart and the shortest
  digits of a whole double are in general not its decimal expansion (\<open>2^60\<close> prints as
  \<open>1152921504606847000\<close>); these, and the numbers that are not whole, print as the host says.
\<close>

fun number_toString :: "host \<Rightarrow> js_number \<Rightarrow> string" where
  "number_toString h (Finite r) =
     (if r = of_int \<lfloor>r\<rfloor> \<and> \<bar>r\<bar> \<le> 2 ^ 53 then int_toString \<lfloor>r\<rfloor> else shortestDigits h r)"
| "number_toString h PosInfinity = ''Infinity''"
| "number_toString h NegInfinity = ''-Infinity''"
| "number_toString h NaN = ''NaN''"

subsection \<open>Runs: results, exceptions and the trace\<close>

text \<open>
  An asynchronous function of the source is a function from the trace so far to its
  outcome (the exception thrown, or the value returned) and the trace afterwards.
  \<open>emit\<close> is a call that returns at once (logging, progress, a property set on a host
  object); \<open>await\<close> is an awaited host call: it is recorded in the trace, throws when
  the host rejects it and otherwise returns the handle of what it made (the position of
  the call in the trace). What a function of the source changes in the objects it is
  given (the groups, the catalogue, the counter, the coordinate arrays) is part of what
  the model of the function returns.
\<close>

type_synonym 'a io = "event list \<Rightarrow> (exn + 'a) \<times> event list"

definition io_return :: "'a \<Rightarrow> 'a io" where
  "io_return x = (\<lambda>w. (Inr x, w))"

definition io_bind :: "'a io \<Rightarrow> ('a \<Rightarrow> 'b io) \<Rightarrow> 'b io" where
  "io_bind m k = (\<lambda>w. case m w of (Inl e, w') \<Rightarrow> (Inl e, w') | (Inr x, w') \<Rightarrow> k x w')"

definition emit :: "event \<Rightarrow> unit io" where
  "emit e = (\<lambda>w. (Inr (), w @ [e]))"

definition emit_all :: "event list \<Rightarrow> unit io" where
  "emit_all es = (\<lambda>w. (Inr (), w @ es))"

definition await :: "host \<Rightarrow> event \<Rightarrow> nat io" where
  "await h e =
     (\<lambda>w. case rejects h (w @ [e]) of
             None \<Rightarrow> (Inr (length w), w @ [e])
           | Some x \<Rightarrow> (Inl x, w @ [e]))"

text \<open>
  \<open>try { m } finally { fin }\<close>: the finaliser runs after \<open>m\<close> however \<open>m\<close> ends; when
  the finaliser throws, its exception replaces the outcome of \<open>m\<close>.
\<close>

definition try_finally :: "'a io \<Rightarrow> unit io \<Rightarrow> 'a io" where
  "try_finally m fin =
     (\<lambda>w. case m w of
             (r, w') \<Rightarrow> (case fin w' of (Inl e, w'') \<Rightarrow> (Inl e, w'') | (Inr u, w'') \<Rightarrow> (r, w'')))"

definition try_catch :: "'a io \<Rightarrow> (exn \<Rightarrow> 'a io) \<Rightarrow> 'a io" where
  "try_catch m handler =
     (\<lambda>w. case m w of (Inl e, w') \<Rightarrow> handler e w' | (Inr x, w') \<Rightarrow> (Inr x, w'))"

primrec io_mapM :: "('a \<Rightarrow> 'b io) \<Rightarrow> 'a list \<Rightarrow> 'b list io" where
  "io_mapM f [] = io_return []"
| "io_mapM f (x # xs) =
     io_bind (f x) (\<lambda>y. io_bind (io_mapM f xs) (\<lambda>ys. io_return (y # ys)))"

primrec io_foldM :: "('a \<Rightarrow> 's \<Rightarrow> 's io) \<Rightarrow> 'a list \<Rightarrow> 's \<Rightarrow> 's io" where
  "io_foldM f [] s = io_return s"
| "io_foldM f (x # xs) s = io_bind (f x s) (io_foldM f xs)"

section \<open>Dataset Grouper: \<open>addToGroups\<close>, \<open>extractGroups\<close>\<close>

definition ALLOWED_EXTENSIONS :: "string list" where
  "ALLOWED_EXTENSIONS =
     [''shp'', ''dbf'', ''shx'', ''sbn'', ''sbx'', ''aih'', ''ain'', ''prj'', ''cpg'', ''idx'']"

text \<open>
  \<open>title.substring(0, title.length - 4)\<close> and \<open>title.substring(title.length - 3)\<close>:
  \<open>substring\<close> reads a negative index as 0, as the subtraction on \<open>nat\<close> does.
  \<open>groups[name]\<close> is not \<open>undefined\<close> when \<open>name\<close> is a member of \<open>Object.prototype\<close>:
  then \<open>group[extension] = bytes.buffer\<close> writes to that member and \<open>groups\<close> gains
  nothing.
\<close>

definition addToGroups :: "host \<Rightarrow> Groups \<Rightarrow> WorkspaceItem \<Rightarrow> Groups io" where
  "addToGroups h groups item =
     io_bind (await h (ItemGet (title item))) (\<lambda>_.
       let bytes = content item; ttl = title item in
       io_bind (emit (ProgressDetails ttl)) (\<lambda>_.
         let name = take (length ttl - 4) ttl;
             extension = drop (length ttl - 3) ttl
         in if extension \<notin> set ALLOWED_EXTENSIONS
            then io_bind (emit (OutputsError ''Unsupported extension {0}'' extension))
                   (\<lambda>_. io_return groups)
            else (case get_property groups name of
                    Own shapeGroup \<Rightarrow>
                      io_return
                        (AList.update name (AList.update extension (buffer bytes) shapeGroup) groups)
                  | Inherited \<Rightarrow> io_return groups
                  | Undefined \<Rightarrow>
                      io_return (AList.update name [(extension, buffer bytes)] groups))))"

fun extractGroups :: "host \<Rightarrow> Groups \<Rightarrow> WorkspaceItem list \<Rightarrow> Groups io" where
  "extractGroups h groups [] = io_return groups"
| "extractGroups h groups (WorkspaceItem t m c ch # items) =
     io_bind
       (case m of
          MimeFolder \<Rightarrow> io_bind (await h (Propfind t)) (\<lambda>_. extractGroups h groups ch)
        | MimeOther v \<Rightarrow> addToGroups h groups (WorkspaceItem t m c ch))
       (\<lambda>groups'. extractGroups h groups' items)"

section \<open>Feature Decoder: \<open>addPropName\<close>, \<open>decodeGeoJSONs\<close>\<close>

definition quote_char :: char where
  "quote_char = CHR 0x22"

text \<open>
  The \<open>switch\<close> of \<open>addPropName\<close>: the kind and the example to store, or nothing when the
  function returns early (a number that is not finite, an empty string, an invalid date,
  and every value for which \<open>type\<close> stays undefined).
\<close>

fun addPropName_switch :: "host \<Rightarrow> PropertyValue \<Rightarrow> (PropertyType \<times> PropertyValue) option" where
  "addPropName_switch h (PNumber x) = (if \<not> isFinite x then None else Some (TNumber, PNumber x))"
| "addPropName_switch h (PString s) =
     (if length s = 0 then None else Some (TString, PString (quote_char # s @ [quote_char])))"
| "addPropName_switch h (PDate d) =
     (if isNaN (valueOf d) then None else Some (TDate, PString (toLocaleString h d)))"
| "addPropName_switch h (PBoolean b) = None"
| "addPropName_switch h (POther v) = None"

text \<open>
  \<open>addPropName\<close>: after the \<open>switch\<close>, \<open>examples = propNames[propName]\<close>. When the
  catalogue owns an entry for the field, the example is stored in it; when it owns none and
  the field is called like a member of \<open>Object.prototype\<close>, \<open>examples\<close> is that member, not
  \<open>undefined\<close>, the example is written onto the member and the catalogue gains no entry;
  otherwise the catalogue gains the entry \<open>{ [type]: propValue }\<close>.
\<close>

definition addPropName :: "host \<Rightarrow> PropNames \<Rightarrow> string \<Rightarrow> PropertyValue \<Rightarrow> PropNames" where
  "addPropName h propNames propName propValue =
     (case addPropName_switch h propValue of
        None \<Rightarrow> propNames
      | Some (ty, v) \<Rightarrow>
          (case get_property propNames propName of
             Own examples \<Rightarrow> AList.update propName (AList.update ty v examples) propNames
           | Inherited \<Rightarrow> propNames
           | Undefined \<Rightarrow> AList.update propName [(ty, v)] propNames))"

text \<open>
  The example stored in the catalogue for a field and a kind: what the entry the catalogue
  owns for the field holds under the kind. These entries are what the quick pick offers.
\<close>

definition example_of :: "PropNames \<Rightarrow> string \<Rightarrow> PropertyType \<Rightarrow> PropertyValue option" where
  "example_of propNames propName ty =
     (case map_of propNames propName of None \<Rightarrow> None | Some examples \<Rightarrow> map_of examples ty)"

text \<open>
  The inner \<open>switch (feature.type)\<close> of \<open>decodeGeoJSONs\<close>: every attribute of a feature
  goes through \<open>addPropName\<close>. \<open>decodeGeoJSONs\<close> itself visits the groups in the order of
  their keys; the value found under a key is the entry of the association list.
\<close>

definition decodeGeoJSONs_feature :: "host \<Rightarrow> Feature \<Rightarrow> PropNames \<Rightarrow> PropNames" where
  "decodeGeoJSONs_feature h feature propNames =
     (case feature of
        Feature geometry props \<Rightarrow>
          fold (\<lambda>(propName, v) pn. addPropName h pn propName v) props propNames
      | OtherFeature ty \<Rightarrow> propNames)"

definition decodeGeoJSONs ::
  "host \<Rightarrow> (string \<times> GeoJSON) list \<Rightarrow> PropNames \<Rightarrow> Groups
     \<Rightarrow> ((string \<times> GeoJSON) list \<times> PropNames) io" where
  "decodeGeoJSONs h geoJSONs propNames groups =
     io_foldM (\<lambda>(name, group) (gs, pn).
         io_bind (await h (Shp group)) (\<lambda>_.
           let geojson = shp h group; gs' = set_property gs name geojson in
           case geojson of
             FeatureCollection features \<Rightarrow> io_return (gs', fold (decodeGeoJSONs_feature h) features pn)
           | OtherGeoJSON ty \<Rightarrow> io_return (gs', pn)))
       groups (geoJSONs, propNames)"

section \<open>Layer-Name Candidate Selector: \<open>choosePossibleLayerNameProps\<close>\<close>

text \<open>
  The quick-pick item \<open>choosePossibleLayerNameProps\<close> builds for one field of the
  catalogue: the kinds seen and their examples, printed by a template literal, without the
  last two characters (the trailing comma and blank).
\<close>

fun type_name :: "PropertyType \<Rightarrow> string" where
  "type_name TNumber = ''number''"
| "type_name TString = ''string''"
| "type_name TBoolean = ''boolean''"
| "type_name TDate = ''Date''"

fun template_toString :: "host \<Rightarrow> PropertyValue \<Rightarrow> string" where
  "template_toString h (PNumber x) = number_toString h x"
| "template_toString h (PString s) = s"
| "template_toString h (PBoolean b) = (if b then ''true'' else ''false'')"
| "template_toString h (PDate d) = dateToString h d"
| "template_toString h (POther v) = v"

definition choosePossibleLayerNameProps_option :: "host \<Rightarrow> string \<times> (PropertyType \<times> PropertyValue) list \<Rightarrow> QuickPickItem" where
  "choosePossibleLayerNameProps_option h entry =
     (let typesString =
            concat (map (\<lambda>(ty, v). type_name ty @ '': '' @ template_toString h v @ '', '')
              (snd entry))
      in \<lparr> label = fst entry, kind = Default,
           detail = tr h MsgExamples [] @ '': '' @ take (length typesString - 2) typesString \<rparr>)"

definition choosePossibleLayerNameProps :: "host \<Rightarrow> PropNames \<Rightarrow> string list io" where
  "choosePossibleLayerNameProps h propNames =
     (let options = map (choosePossibleLayerNameProps_option h) propNames in
      io_bind (await h (ShowQuickPick options (tr h MsgChooseFields []) True)) (\<lambda>_.
        io_return (map label (showQuickPick h options))))"

section \<open>Layer data: \<open>featurePropValue\<close>, \<open>featureProps\<close>, \<open>assignLayerName\<close>\<close>

text \<open>
  Both functions return what they built and what they wrote to the output channel. A
  typed property object is its \<open>$value\<close> and its \<open>$type\<close> tag (\<open>$units\<close> is always
  undefined); the object built for a value of no supported kind has no tag.
\<close>

fun featurePropValue :: "host \<Rightarrow> PropertyValue \<Rightarrow> DwgValue \<times> event list" where
  "featurePropValue h (PNumber x) =
     (TypedValue (PNumber x) (Some (if isInteger x then ''int'' else ''float'')), [])"
| "featurePropValue h (PString s) = (TypedValue (PString s) (Some ''string''), [])"
| "featurePropValue h (PBoolean b) = (TypedValue (PBoolean b) (Some ''bool''), [])"
| "featurePropValue h (PDate d) = (TypedValue (PString (toLocaleString h d)) (Some ''string''), [])"
| "featurePropValue h (POther v) =
     (TypedValue (POther v) None, [OutputsError ''Unsupported property type {0}'' v])"

definition featureProps :: "host \<Rightarrow> Properties \<Rightarrow> DwgTypedObject \<times> event list" where
  "featureProps h rawProps =
     (fold (\<lambda>(name, v) props. set_property props name (fst (featurePropValue h v))) rawProps [],
      concat (map (\<lambda>(name, v). snd (featurePropValue h v)) rawProps))"

text \<open>
  The \<open>for\<close> loop of \<open>assignLayerName\<close> over the approved field names: the name it
  assigns, or none when it ends with \<open>layerData.name\<close> still undefined. \<open>continue\<close> goes
  on with the remaining names; the \<open>break\<close> after the \<open>switch\<close> ends the loop, also for
  a value that is neither a number, a string nor a \<open>Date\<close>, for which no name was set.
  Such a value is also what \<open>properties[name]\<close> finds when the feature owns no attribute
  of that name and the name is a member of \<open>Object.prototype\<close>.
\<close>

fun assignLayerName_loop :: "host \<Rightarrow> Properties \<Rightarrow> string list \<Rightarrow> string option" where
  "assignLayerName_loop h properties [] = None"
| "assignLayerName_loop h properties (name # names) =
     (case get_property properties name of
        Undefined \<Rightarrow> assignLayerName_loop h properties names
      | Inherited \<Rightarrow> None
      | Own (PNumber x) \<Rightarrow>
          if \<not> isFinite x then assignLayerName_loop h properties names
          else Some (number_toString h x)
      | Own (PString s) \<Rightarrow>
          if length s = 0 then assignLayerName_loop h properties names else Some s
      | Own (PDate d) \<Rightarrow>
          if isNaN (valueOf d) then assignLayerName_loop h properties names
          else Some (toLocaleString h d)
      | Own (PBoolean b) \<Rightarrow> None
      | Own (POther v) \<Rightarrow> None)"

text \<open>
  The counter \<open>layerIDs.next\<close> counts the fallback names already given. It is a whole
  number that starts at 0 and grows by one at a time, far below \<open>2^53\<close>, where the
  arithmetic of JavaScript numbers is exact and \<open>toString\<close> prints decimal digits.
\<close>

definition assignLayerName ::
  "host \<Rightarrow> DwgTypedObject \<Rightarrow> Properties \<Rightarrow> string list \<Rightarrow> nat \<Rightarrow> DwgTypedObject \<times> nat" where
  "assignLayerName h layerData properties layerNames layerIDs =
     (if map_of layerData ''name'' = None then
        (case assignLayerName_loop h properties layerNames of
           Some n \<Rightarrow> (AList.update ''name'' (Text n) layerData, layerIDs)
         | None \<Rightarrow>
             (AList.update ''name'' (Text (nat_toString (layerIDs + 1))) layerData, layerIDs + 1))
      else (layerData, layerIDs))"

text \<open>
  The first three statements of \<open>loadFeature\<close>: the layer data handed to
  \<open>drawing.layers.add\<close> for a feature, and the counter afterwards.
\<close>

definition loadFeature_layerData ::
  "host \<Rightarrow> Properties \<Rightarrow> string list \<Rightarrow> nat \<Rightarrow> DwgTypedObject \<times> nat" where
  "loadFeature_layerData h properties layerNames layerIDs =
     assignLayerName h
       (AList.update ''$type'' (TypeItem ''SmdxElement'') (fst (featureProps h properties)))
       properties layerNames layerIDs"

section \<open>Geometry Mapper: \<open>coordinatesToVec3\<close>, \<open>scaleCoordinates\<close>, \<open>featureGeometry\<close>\<close>

fun coordinatesToVec3 :: "Coord \<Rightarrow> vec3" where
  "coordinatesToVec3 (Vec3 x y z) = (x, y, z)"
| "coordinatesToVec3 (Vec2 x y) = (x, y, 0)"

definition SCALE :: real where
  "SCALE = 1"

fun scaleCoordinates :: "vec3 \<Rightarrow> vec3" where
  "scaleCoordinates (x, y, z) = (x * SCALE, y * SCALE, z * SCALE)"

text \<open>
  The three ways \<open>featureGeometry\<close> draws, each followed by
  \<open>entity.setx('$layer', layer)\<close>, and each returning the coordinate array as it leaves it.
  A polyline: \<open>coordinates[i] = scaleCoordinates(coordinatesToVec3(coordinates[i]))\<close> for
  every \<open>i\<close> writes the padded, scaled points back into the array of the input geometry,
  and that array is the vertex list handed to \<open>addPolyline3d\<close>. A line string: a straight
  line when it has exactly two points (the array is only read), a polyline otherwise. A
  circle of radius 0.005 at a point (the point is only read). When a host call throws, what
  was written stays written, but nothing reads the geometry afterwards, and the outcome of
  the call is the exception alone.
\<close>

fun vec3_Coord :: "vec3 \<Rightarrow> Coord" where
  "vec3_Coord (x, y, z) = Vec3 x y z"

definition featureGeometry_polyline :: "host \<Rightarrow> nat \<Rightarrow> Coord list \<Rightarrow> Coord list io" where
  "featureGeometry_polyline h layer coordinates =
     (let vertices = map (\<lambda>c. scaleCoordinates (coordinatesToVec3 c)) coordinates in
      io_bind (await h (AddPolyline3d vertices)) (\<lambda>entity.
        io_bind (await h (SetxLayer entity layer)) (\<lambda>_.
          io_return (map vec3_Coord vertices))))"

definition featureGeometry_line :: "host \<Rightarrow> nat \<Rightarrow> Coord list \<Rightarrow> Coord list io" where
  "featureGeometry_line h layer coordinates =
     (if length coordinates = 2 then
        io_bind (await h (AddLine (scaleCoordinates (coordinatesToVec3 (coordinates ! 0)))
                                  (scaleCoordinates (coordinatesToVec3 (coordinates ! 1)))))
          (\<lambda>entity. io_bind (await h (SetxLayer entity layer)) (\<lambda>_. io_return coordinates))
      else featureGeometry_polyline h layer coordinates)"

definition featureGeometry_circle :: "host \<Rightarrow> nat \<Rightarrow> Coord \<Rightarrow> Coord io" where
  "featureGeometry_circle h layer coordinates =
     io_bind (await h (AddCircle (scaleCoordinates (coordinatesToVec3 coordinates)) (5 / 1000)))
       (\<lambda>entity. io_bind (await h (SetxLayer entity layer)) (\<lambda>_. io_return coordinates))"

text \<open>\<open>featureGeometry\<close> returns the geometry as the call leaves it in memory.\<close>

fun featureGeometry :: "host \<Rightarrow> nat \<Rightarrow> Geometry \<Rightarrow> Geometry io" where
  "featureGeometry h layer (Point c) =
     io_bind (featureGeometry_circle h layer c) (\<lambda>c'. io_return (Point c'))"
| "featureGeometry h layer (LineString cs bbox) =
     io_bind (featureGeometry_line h layer cs) (\<lambda>cs'. io_return (LineString cs' bbox))"
| "featureGeometry h layer (Polygon rings bbox) =
     io_bind (io_mapM (featureGeometry_polyline h layer) rings) (\<lambda>rings'. io_return (Polygon rings' bbox))"
| "featureGeometry h layer (MultiPoint cs) =
     io_bind (io_mapM (featureGeometry_circle h layer) cs) (\<lambda>cs'. io_return (MultiPoint cs'))"
| "featureGeometry h layer (MultiLineString ls) =
     io_bind (io_mapM (featureGeometry_line h layer) ls) (\<lambda>ls'. io_return (MultiLineString ls'))"
| "featureGeometry h layer (MultiPolygon ps) =
     io_bind (io_mapM (io_mapM (featureGeometry_polyline h layer)) ps) (\<lambda>ps'. io_return (MultiPolygon ps'))"
| "featureGeometry h layer (OtherGeometry ty) =
     io_bind (emit (OutputsError ''Unsupported geometry type {0}'' ty))
       (\<lambda>_. io_return (OtherGeometry ty))"

section \<open>Layer/Entity Assembler: \<open>loadFeature\<close>, \<open>loadShapes\<close>\<close>

definition loadFeature ::
  "host \<Rightarrow> Geometry \<Rightarrow> Properties \<Rightarrow> string list \<Rightarrow> nat \<Rightarrow> (nat \<times> nat) io" where
  "loadFeature h geometry properties layerNames layerIDs =
     (let named = loadFeature_layerData h properties layerNames layerIDs in
      io_bind (emit_all (snd (featureProps h properties))) (\<lambda>_.
        io_bind (await h (LayersAdd (fst named))) (\<lambda>layer.
          io_bind (emit (SetDisabled layer)) (\<lambda>_.
            io_bind (featureGeometry h layer geometry) (\<lambda>_.
              io_return (layer, snd named))))))"

text \<open>The loop of \<open>loadShapes\<close> over the features of one collection.\<close>

definition loadShapes_features ::
  "host \<Rightarrow> nat \<Rightarrow> string list \<Rightarrow> Feature list \<Rightarrow> nat \<Rightarrow> nat io" where
  "loadShapes_features h parent layerNames features layerIDs =
     io_foldM (\<lambda>feature ids.
         case feature of
           Feature geometry props \<Rightarrow>
             io_bind (loadFeature h geometry props layerNames ids) (\<lambda>(layer, ids').
               io_bind (await h (SetxLayer layer parent)) (\<lambda>_. io_return ids'))
         | OtherFeature ty \<Rightarrow>
             io_bind (emit (OutputsError ''Unsupported feature type {0}'' ty))
               (\<lambda>_. io_return ids))
       features layerIDs"

text \<open>
  The loop of \<open>loadShapes\<close> over \<open>Object.keys(geoJSONs)\<close>, from index \<open>i\<close> on;
  \<open>n_names\<close> is \<open>names.length\<close>, and \<open>Math.round\<close> rounds a half upwards, as
  \<open>round\<close> does.
\<close>

fun loadShapes_from ::
  "host \<Rightarrow> nat \<Rightarrow> string list \<Rightarrow> nat \<Rightarrow> nat \<Rightarrow> (string \<times> GeoJSON) list \<Rightarrow> nat \<Rightarrow> nat io" where
  "loadShapes_from h root_layer layerNames n_names i [] layerIDs = io_return layerIDs"
| "loadShapes_from h root_layer layerNames n_names i ((name, geojson) # rest) layerIDs =
     io_bind
       (case geojson of
          FeatureCollection features \<Rightarrow>
            (let percents = real i * 100 / real n_names in
             io_bind (emit (ProgressLabel (int_toString (round percents) @ ''%''))) (\<lambda>_.
             io_bind (emit (ProgressPercents percents)) (\<lambda>_.
             io_bind (emit (ProgressDetails name)) (\<lambda>_.
             io_bind (await h (LayersAdd
                        [(''$type'', TypeItem ''SmdxElement''), (''name'', Text name)])) (\<lambda>parent.
             io_bind (emit (SetDisabled parent)) (\<lambda>_.
             io_bind (await h (SetxLayer parent root_layer)) (\<lambda>_.
               loadShapes_features h parent layerNames features layerIDs)))))))
        | OtherGeoJSON ty \<Rightarrow>
            io_bind (emit (OutputsError ''Unsupported GeoJSON type {0}'' ty))
              (\<lambda>_. io_return layerIDs))
       (\<lambda>ids'. loadShapes_from h root_layer layerNames n_names (i + 1) rest ids')"

definition loadShapes ::
  "host \<Rightarrow> (string \<times> GeoJSON) list \<Rightarrow> nat \<Rightarrow> string list \<Rightarrow> nat \<Rightarrow> nat io" where
  "loadShapes h geoJSONs root_layer layerNames layerIDs =
     io_bind (emit (ProgressIndeterminate False)) (\<lambda>_.
       loadShapes_from h root_layer layerNames (length geoJSONs) 0 geoJSONs layerIDs)"

section \<open>Import Orchestrator: \<open>SHPImporter.import\<close>\<close>

text \<open>The statements of \<open>import\<close> from \<open>layerIDs = { next: 0 }\<close> to the end of the inner
  \<open>finally\<close>: the two sessions are opened, the layers are written, the sessions are closed.\<close>

definition import_write ::
  "host \<Rightarrow> string \<Rightarrow> (string \<times> GeoJSON) list \<Rightarrow> string list \<Rightarrow> unit io" where
  "import_write h filename geoJSONs layerNames =
     (let layerIDs = 0 in
      io_bind (await h LayersBeginUpdate) (\<lambda>_.
      io_bind (emit LayoutEditor) (\<lambda>_.
      io_bind (await h BeginEdit) (\<lambda>_.
        try_finally
          (io_bind (await h (LayersAdd
                      [(''$type'', TypeItem ''SmdxElement''), (''name'', Text filename)])) (\<lambda>root_layer.
           io_bind (emit (SetDisabled root_layer)) (\<lambda>_.
           io_bind (loadShapes h geoJSONs root_layer layerNames layerIDs) (\<lambda>_.
             io_return ()))))
          (io_bind (await h LayersEndUpdate) (\<lambda>_.
           io_bind (await h EndEdit) (\<lambda>_. io_return ())))))))"

definition import_body :: "host \<Rightarrow> Workspace \<Rightarrow> Drawing \<Rightarrow> unit io" where
  "import_body h workspace drawing =
     (let filename = (case origin workspace of Some s \<Rightarrow> s | None \<Rightarrow> title (root workspace)) in
      io_bind (emit (OutputsInfo (tr h MsgImportShapeFrom [filename]))) (\<lambda>_.
      io_bind (emit (ProgressIndeterminate True)) (\<lambda>_.
        case (case layouts drawing of None \<Rightarrow> None | Some ls \<Rightarrow> model ls) of
          None \<Rightarrow> io_return ()
        | Some layout \<Rightarrow>
            io_bind (emit (ProgressDetails (tr h MsgReadingFile []))) (\<lambda>_.
            io_bind (await h (Propfind (title (root workspace)))) (\<lambda>_.
            io_bind (extractGroups h [] (children (root workspace))) (\<lambda>groups.
            io_bind (decodeGeoJSONs h [] [] groups) (\<lambda>(geoJSONs, propNames).
            io_bind (choosePossibleLayerNameProps h propNames) (\<lambda>layerNames.
              import_write h filename geoJSONs layerNames))))))))"

definition SHPImporter_import :: "host \<Rightarrow> Workspace \<Rightarrow> Drawing \<Rightarrow> unit io" where
  "SHPImporter_import h workspace drawing =
     io_bind (emit BeginProgress) (\<lambda>_.
     io_bind (emit (CreateOutputChannel ''SHP'')) (\<lambda>_.
       try_finally
         (try_catch (import_body h workspace drawing) (\<lambda>e. emit (OutputsErrorExn e)))
         (emit EndProgress)))"

section \<open>Observations on runs\<close>

text \<open>
  The coordinates a host call hands to the entity editor, and the coordinates of a
  geometry, both in order.
\<close>

fun event_coordinates :: "event \<Rightarrow> vec3 list" where
  "event_coordinates (AddCircle c r) = [c]"
| "event_coordinates (AddLine a b) = [a, b]"
| "event_coordinates (AddPolyline3d vs) = vs"
| "event_coordinates e = []"

fun geometry_coordinates :: "Geometry \<Rightarrow> Coord list" where
  "geometry_coordinates (Point c) = [c]"
| "geometry_coordinates (LineString cs bbox) = cs"
| "geometry_coordinates (Polygon rings bbox) = concat rings"
| "geometry_coordinates (MultiPoint cs) = cs"
| "geometry_coordinates (MultiLineString ls) = concat ls"
| "geometry_coordinates (MultiPolygon ps) = concat (map concat ps)"
| "geometry_coordinates (OtherGeometry ty) = []"

text \<open>The calls that open and close the layer-update and the edit session.\<close>

fun session_events :: "event \<Rightarrow> event list" where
  "session_events LayersBeginUpdate = [LayersBeginUpdate]"
| "session_events LayersEndUpdate = [LayersEndUpdate]"
| "session_events BeginEdit = [BeginEdit]"
| "session_events EndEdit = [EndEdit]"
| "session_events e = []"

text \<open>
  The orders in which a run may have called the four session functions, and
  \<open>sessions_within m\<close>: the session calls \<open>m\<close> adds to a trace are in one of these orders.
\<close>

definition session_orders :: "event list set" where
  "session_orders =
     {[], [LayersBeginUpdate], [LayersBeginUpdate, BeginEdit],
      [LayersBeginUpdate, BeginEdit, LayersEndUpdate],
      [LayersBeginUpdate, BeginEdit, LayersEndUpdate, EndEdit]}"

definition sessions_within :: "'a io \<Rightarrow> bool" where
  "sessions_within m =
     (\<forall>w. \<exists>evs. snd (m w) = w @ evs \<and> concat (map session_events evs) \<in> session_orders)"

text \<open>
  \<open>emits pr m xs\<close>: from every trace, \<open>m\<close> only appends events; what \<open>pr\<close> reads off
  the appended events is \<open>xs\<close> when \<open>m\<close> returns, and the part of \<open>xs\<close> reached when an
  exception ends \<open>m\<close> early. \<open>returns m y\<close>: whenever \<open>m\<close> returns, it returns \<open>y\<close>;
  \<open>ensures m Q\<close>: whenever \<open>m\<close> returns, \<open>Q\<close> holds of what it returns.
\<close>

definition emits :: "(event \<Rightarrow> 'b list) \<Rightarrow> 'a io \<Rightarrow> 'b list \<Rightarrow> bool" where
  "emits pr m xs =
     (\<forall>w. \<exists>evs. snd (m w) = w @ evs \<and> prefix (concat (map pr evs)) xs
        \<and> (\<forall>r. fst (m w) = Inr r \<longrightarrow> concat (map pr evs) = xs))"

definition returns :: "'a io \<Rightarrow> 'a \<Rightarrow> bool" where
  "returns m y = (\<forall>w r. fst (m w) = Inr r \<longrightarrow> r = y)"

definition ensures :: "'a io \<Rightarrow> ('a \<Rightarrow> bool) \<Rightarrow> bool" where
  "ensures m Q = (\<forall>w r. fst (m w) = Inr r \<longrightarrow> Q r)"

definition vertex :: "Coord \<Rightarrow> vec3" where
  "vertex c = scaleCoordinates (coordinatesToVec3 c)"

text \<open>
  The input geometry as a completed call of \<open>featureGeometry\<close> leaves it: every ring,
  and every line string that does not have exactly two points, holds its points padded
  and scaled; points, and line strings of exactly two points, are not written to.
\<close>

definition ring_after :: "Coord list \<Rightarrow> Coord list" where
  "ring_after cs = map (\<lambda>c. vec3_Coord (vertex c)) cs"

definition line_after :: "Coord list \<Rightarrow> Coord list" where
  "line_after cs = (if length cs = 2 then cs else ring_after cs)"

fun geometry_after :: "Geometry \<Rightarrow> Geometry" where
  "geometry_after (Point c) = Point c"
| "geometry_after (LineString cs bbox) = LineString (line_after cs) bbox"
| "geometry_after (Polygon rings bbox) = Polygon (map ring_after rings) bbox"
| "geometry_after (MultiPoint cs) = MultiPoint cs"
| "geometry_after (MultiLineString ls) = MultiLineString (map line_after ls)"
| "geometry_after (MultiPolygon ps) = MultiPolygon (map (map ring_after) ps)"
| "geometry_after (OtherGeometry ty) = OtherGeometry ty"

text \<open>The number a string of decimal digits denotes.\<close>

definition decimal_value :: "string \<Rightarrow> nat" where
  "decimal_value s = fold (\<lambda>c v. 10 * v + (of_char c - 48)) s 0"

section \<open>The naming rule in the words of the specification\<close>

text \<open>
  The specification's validity rules for a candidate's value, to be compared with the loop
  of \<open>assignLayerName\<close>: a candidate is skipped when reading it from the feature gives
  \<open>undefined\<close>, or the value is a number that is not finite, an empty text or an invalid
  date; a valid value is formatted (a number by \<open>toString\<close>, a text as it is, a date by
  \<open>toLocaleString\<close>). A boolean is neither skipped nor formatted, and neither is a member
  of \<open>Object.prototype\<close> found under the candidate's name.
\<close>

definition spec_skipped :: "PropertyValue js_property \<Rightarrow> bool" where
  "spec_skipped v =
     (case v of
        Undefined \<Rightarrow> True
      | Inherited \<Rightarrow> False
      | Own (PNumber x) \<Rightarrow> \<not> isFinite x
      | Own (PString s) \<Rightarrow> s = []
      | Own (PDate d) \<Rightarrow> time_value d = None
      | Own (PBoolean b) \<Rightarrow> False
      | Own (POther u) \<Rightarrow> False)"

definition spec_formatted :: "host \<Rightarrow> PropertyValue js_property \<Rightarrow> string option" where
  "spec_formatted h v =
     (case v of
        Own (PNumber x) \<Rightarrow> if isFinite x then Some (number_toString h x) else None
      | Own (PString s) \<Rightarrow> if s \<noteq> [] then Some s else None
      | Own (PDate d) \<Rightarrow> if time_value d \<noteq> None then Some (toLocaleString h d) else None
      | _ \<Rightarrow> None)"

text \<open>
  The features that \<open>assignLayerName\<close> names from the counter: those without an attribute
  called \<open>name\<close> for which the loop over the approved fields ends without a name. And all
  the features of a run, in the order in which \<open>loadShapes\<close> visits them.
\<close>

definition fallback_named :: "host \<Rightarrow> string list \<Rightarrow> Feature \<Rightarrow> bool" where
  "fallback_named h layerNames feature =
     (case feature of
        Feature geometry props \<Rightarrow>
          map_of props ''name'' = None \<and> assignLayerName_loop h props layerNames = None
      | OtherFeature ty \<Rightarrow> False)"

definition all_features :: "(string \<times> GeoJSON) list \<Rightarrow> Feature list" where
  "all_features geoJSONs =
     concat (map (\<lambda>(name, geojson). case geojson of FeatureCollection features \<Rightarrow> features
                                       | OtherGeoJSON ty \<Rightarrow> []) geoJSONs)"

section \<open>Sample hosts and inputs\<close>

definition sample_host :: host where
  "sample_host =
     \<lparr> toLocaleString = (\<lambda>d. case time_value d of None \<Rightarrow> ''Invalid Date''
                                 | Some t \<Rightarrow> ''@'' @ int_toString t),
       dateToString = (\<lambda>d. case time_value d of None \<Rightarrow> ''Invalid Date''
                               | Some t \<Rightarrow> ''#'' @ int_toString t),
       shortestDigits = (\<lambda>r. int_toString \<lfloor>r\<rfloor> @ ''.5''),
       tr = (\<lambda>m args. concat args),
       shp = (\<lambda>g. FeatureCollection []),
       showQuickPick = (\<lambda>options. options),
       rejects = (\<lambda>w. None) \<rparr>"

text \<open>A host whose file tree cannot deliver the bytes of \<open>notes.txt\<close>.\<close>

definition unreadable_host :: host where
  "unreadable_host =
     sample_host \<lparr> rejects := (\<lambda>w. if w \<noteq> [] \<and> last w = ItemGet ''notes.txt''
                                    then Some (HostError ''unreadable'') else None) \<rparr>"

text \<open>A host whose layer table throws when the update session is closed.\<close>

definition endUpdate_failing_host :: host where
  "endUpdate_failing_host =
     sample_host \<lparr> rejects := (\<lambda>w. if w \<noteq> [] \<and> last w = LayersEndUpdate
                                    then Some (HostError ''endUpdate failed'') else None) \<rparr>"

definition notes_txt :: WorkspaceItem where
  "notes_txt = WorkspaceItem ''notes.txt'' (MimeOther ''text/plain'') (Bytes [110, 111] 0 2) []"

definition parcels_shp :: WorkspaceItem where
  "parcels_shp = WorkspaceItem ''parcels.shp'' (MimeOther ''application/octet-stream'')
       (Bytes [0, 0, 39, 10] 0 4) []"

section \<open>Theorems\<close>

subsection \<open>The attribute catalogue\<close>

lemma example_of_update:
  "example_of (AList.update k ex pn) k' ty = (if k' = k then map_of ex ty else example_of pn k' ty)"
  by (simp add: example_of_def update_conv')

lemma isNaN_valueOf: "isNaN (valueOf d) = (time_value d = None)"
  by (cases d) (simp add: valueOf_def split: option.splits)

text \<open>
  For a field whose name is not that of a member of \<open>Object.prototype\<close>, \<open>addPropName\<close>
  catalogues a value exactly when it is valid. After the call the example of the field for
  the kind of the value is the value itself for a finite number, the text between two quote
  characters for a text that is not empty, and the locale-formatted string for a date that
  has a time value; every other entry, and the whole catalogue when the value is not
  valid, is as before.
\<close>

lemma addPropName_own_field:
  assumes "k \<notin> set Object_prototype"
  shows "example_of (addPropName h pn k (PNumber x)) k' ty =
     (if isFinite x \<and> k' = k \<and> ty = TNumber then Some (PNumber x) else example_of pn k' ty)
   \<and> example_of (addPropName h pn k (PString s)) k' ty =
     (if s \<noteq> [] \<and> k' = k \<and> ty = TString then Some (PString ([CHR 0x22] @ s @ [CHR 0x22]))
      else example_of pn k' ty)
   \<and> example_of (addPropName h pn k (PDate d)) k' ty =
     (if time_value d \<noteq> None \<and> k' = k \<and> ty = TDate then Some (PString (toLocaleString h d))
      else example_of pn k' ty)
   \<and> (\<not> isFinite x \<longrightarrow> addPropName h pn k (PNumber x) = pn)
   \<and> (s = [] \<longrightarrow> addPropName h pn k (PString s) = pn)
   \<and> (time_value d = None \<longrightarrow> addPropName h pn k (PDate d) = pn)"
  using assms
  by (auto simp: addPropName_def get_property_def example_of_update update_conv' example_of_def
      quote_char_def isNaN_valueOf split: option.splits)

text \<open>
  A field that is called like a member of \<open>Object.prototype\<close> never enters a catalogue
  that does not own an entry for it already, whatever its values are; and \<open>addPropName\<close>
  is the only function that adds entries to the catalogue, which starts as \<open>{}\<close>.
\<close>

lemma addPropName_inherited:
  assumes "k \<in> set Object_prototype" and "map_of pn k = None"
  shows "addPropName h pn k v = pn"
  using assms by (simp add: addPropName_def get_property_def split: option.splits)

text \<open>
  C4 at a field called \<open>toString\<close> (or \<open>valueOf\<close>). The value 5 is a finite number and
  \<open>Lot 1\<close> is a text that is not empty, yet neither is catalogued:
  \<open>propNames['toString']\<close> is the function every object inherits, so \<open>examples\<close> is not
  \<open>undefined\<close>, the example is written onto that function and the catalogue stays empty.
  Scanning the attributes \<open>{toString: 5, area: 5}\<close> of a feature catalogues \<open>area\<close>
  alone.
\<close>

theorem addPropName_inherited_field:
  "addPropName sample_host [] ''toString'' (PNumber (Finite 5)) = []
   \<and> example_of (addPropName sample_host [] ''toString'' (PNumber (Finite 5))) ''toString'' TNumber
       = None
   \<and> addPropName sample_host [] ''valueOf'' (PString ''Lot 1'') = []
   \<and> decodeGeoJSONs_feature sample_host
         (Feature (Point (Vec2 1 2)) [(''toString'', PNumber (Finite 5)), (''area'', PNumber (Finite 5))])
         []
       = [(''area'', [(TNumber, PNumber (Finite 5))])]"
  by (simp add: addPropName_def get_property_def Object_prototype_def example_of_def
      decodeGeoJSONs_feature_def)

text \<open>
  C3, as the specification states it, fails: a boolean value scanned by the decoder is
  not recorded in the catalogue. Here the field \<open>flag\<close> with the value \<open>true\<close> leaves
  the catalogue without an example of the boolean kind.
\<close>

theorem addPropName_boolean_counterexample:
  "example_of (addPropName sample_host [] ''flag'' (PBoolean True)) ''flag'' TBoolean
     \<noteq> Some (PBoolean True)"
  by (simp add: addPropName_def example_of_def)

text \<open>
  C3, amended. For every attribute value of boolean kind, \<open>addPropName\<close> leaves the
  catalogue as it was: \<open>type\<close> stays undefined for a boolean and the function returns
  before it stores anything.
\<close>

theorem addPropName_boolean_dropped:
  "addPropName h pn k (PBoolean b) = pn"
  by (simp add: addPropName_def)

subsection \<open>Layer names\<close>

lemma map_of_set_property:
  "k \<noteq> ''__proto__'' \<Longrightarrow>
   map_of (set_property obj n x) k = (if n = k then Some x else map_of obj k)"
  by (simp add: set_property_def update_conv')

lemma map_of_set_property_other:
  "n \<noteq> k \<Longrightarrow> map_of (set_property obj n x) k = map_of obj k"
  by (simp add: set_property_def update_conv')

lemma featureProps_keys:
  "k \<noteq> ''__proto__'' \<Longrightarrow>
   (map_of (fold (\<lambda>(name, v) props. set_property props name (f v)) rawProps acc) k = None)
   = (map_of rawProps k = None \<and> map_of acc k = None)"
proof (induction rawProps arbitrary: acc)
  case Nil
  show ?case by simp
next
  case (Cons p ps)
  obtain n v where p: "p = (n, v)" by (cases p)
  show ?case
    using Cons.prems by (auto simp: p Cons.IH map_of_set_property)
qed

lemma featureProps_other_keys:
  "map_of rawProps k = None \<Longrightarrow>
   map_of (fold (\<lambda>(name, v) props. set_property props name (f v)) rawProps acc) k = map_of acc k"
proof (induction rawProps arbitrary: acc)
  case Nil
  show ?case by simp
next
  case (Cons p ps)
  obtain n v where p: "p = (n, v)" by (cases p)
  have "n \<noteq> k" and "map_of ps k = None"
    using Cons.prems by (auto simp: p split: if_splits)
  then show ?case
    by (simp add: p Cons.IH map_of_set_property_other)
qed

lemma featureProps_typed:
  "k \<noteq> ''__proto__'' \<Longrightarrow> distinct (map fst rawProps) \<Longrightarrow> map_of rawProps k = Some v \<Longrightarrow>
   map_of (fold (\<lambda>(name, v) props. set_property props name (f v)) rawProps acc) k = Some (f v)"
proof (induction rawProps arbitrary: acc)
  case Nil
  then show ?case by simp
next
  case (Cons p ps)
  obtain n u where p: "p = (n, u)" by (cases p)
  show ?case
  proof (cases "n = k")
    case True
    then have u: "u = v" using Cons.prems(3) by (simp add: p)
    have "map_of ps k = None"
      using Cons.prems(2) True by (simp add: p map_of_eq_None_iff)
    then show ?thesis
      using Cons.prems(1) True
      by (simp add: p u featureProps_other_keys map_of_set_property)
  next
    case False
    then show ?thesis
      using Cons.prems by (simp add: p Cons.IH)
  qed
qed

lemma layerData_no_name:
  "map_of props ''name'' = None \<Longrightarrow>
   map_of (AList.update ''$type'' (TypeItem ''SmdxElement'') (fst (featureProps h props)))
     ''name'' = None"
  by (simp add: featureProps_def update_conv' featureProps_keys)

lemma layerData_name_iff:
  "(map_of (AList.update ''$type'' (TypeItem ''SmdxElement'') (fst (featureProps h props)))
     ''name'' = None) = (map_of props ''name'' = None)"
  by (simp add: featureProps_def update_conv' featureProps_keys)

text \<open>
  A feature that has an attribute called \<open>name\<close>: \<open>assignLayerName\<close> changes neither the
  layer data nor the counter, and the \<open>name\<close> of the layer data is the typed attribute that
  \<open>featureProps\<close> made of it.
\<close>

lemma layerData_named:
  assumes "map_of props ''name'' \<noteq> None"
  shows "loadFeature_layerData h props layerNames ids
     = (AList.update ''$type'' (TypeItem ''SmdxElement'') (fst (featureProps h props)), ids)"
proof -
  have "\<not> map_of (AList.update ''$type'' (TypeItem ''SmdxElement'') (fst (featureProps h props)))
           ''name'' = None"
    using assms by (simp add: layerData_name_iff)
  then show ?thesis
    unfolding loadFeature_layerData_def assignLayerName_def by (rule if_not_P)
qed

lemma layerData_name_typed:
  "distinct (map fst props) \<Longrightarrow> map_of props ''name'' = Some v \<Longrightarrow>
   map_of (AList.update ''$type'' (TypeItem ''SmdxElement'') (fst (featureProps h props)))
     ''name'' = Some (fst (featurePropValue h v))"
  by (simp add: featureProps_def update_conv' featureProps_typed)

lemma loop_step_skipped:
  "spec_skipped (get_property props c) \<Longrightarrow>
   assignLayerName_loop h props (c # rest) = assignLayerName_loop h props rest"
  by (simp add: spec_skipped_def isNaN_valueOf split: js_property.splits PropertyValue.splits)

lemma loop_skipped:
  "\<forall>c\<in>set skipped. spec_skipped (get_property props c) \<Longrightarrow>
   assignLayerName_loop h props (skipped @ rest) = assignLayerName_loop h props rest"
proof (induction skipped)
  case Nil
  show ?case by simp
next
  case (Cons c cs)
  then show ?case using loop_step_skipped[of props c h "cs @ rest"] by simp
qed

lemma loop_formatted:
  "spec_formatted h (get_property props c) = Some s \<Longrightarrow>
   assignLayerName_loop h props (c # rest) = Some s"
  by (auto simp: spec_formatted_def isNaN_valueOf
      split: js_property.splits PropertyValue.splits if_splits)

lemma loop_not_usable:
  "\<forall>c\<in>set layerNames. spec_formatted h (get_property props c) = None \<Longrightarrow>
   assignLayerName_loop h props layerNames = None"
  by (induction layerNames)
     (auto simp: spec_formatted_def isNaN_valueOf
       split: js_property.splits PropertyValue.splits if_splits)

lemma nat_toString_1: "nat_toString (Suc 0) = ''1''"
  by code_simp

lemma nat_toString_7: "nat_toString 7 = ''7''"
  by code_simp

text \<open>
  A whole number of magnitude at most \<open>2^53\<close> prints as its decimal digits, on every host.
\<close>

lemma number_toString_whole:
  assumes "\<bar>i\<bar> \<le> 2 ^ 53"
  shows "number_toString h (Finite (of_int i)) = int_toString i"
proof -
  have "\<bar>real_of_int i\<bar> = real_of_int \<bar>i\<bar>" by simp
  also have "\<dots> \<le> real_of_int (2 ^ 53)" using assms by (simp only: of_int_le_iff)
  finally have "\<bar>real_of_int i\<bar> \<le> 2 ^ 53" by simp
  then show ?thesis by simp
qed

text \<open>
  C2, as the specification states it, fails: a feature that has an attribute called
  \<open>name\<close> is not named by the scan of the approved fields. \<open>featureProps\<close> has stored
  the typed attribute under \<open>layerData.name\<close>, so the guard of \<open>assignLayerName\<close> skips
  the scan: with the approved field \<open>title\<close> holding the valid text \<open>T\<close>, the name of the
  layer data is not \<open>T\<close> but the typed attribute \<open>Lot 1\<close>.
\<close>

theorem layer_name_scan_counterexample:
  "map_of (fst (loadFeature_layerData sample_host
       [(''name'', PString ''Lot 1''), (''title'', PString ''T'')] [''title''] 0)) ''name''
     = Some (TypedValue (PString ''Lot 1'') (Some ''string''))"
  by (simp add: loadFeature_layerData_def assignLayerName_def featureProps_def set_property_def)

text \<open>
  The scan also ends at a boolean value without a name: the later candidate \<open>title\<close> is
  valid and yet the layer gets the fallback name.
\<close>

lemma layer_name_scan_boolean:
  "loadFeature_layerData sample_host
       [(''flag'', PBoolean True), (''title'', PString ''A'')] [''flag'', ''title''] 0
     = ([(''flag'', TypedValue (PBoolean True) (Some ''bool'')),
         (''title'', TypedValue (PString ''A'') (Some ''string'')),
         (''$type'', TypeItem ''SmdxElement''), (''name'', Text ''1'')], 1)"
  by (simp add: loadFeature_layerData_def assignLayerName_def featureProps_def set_property_def
      get_property_def nat_toString_1)

text \<open>
  So does the scan at a candidate that the feature does not own and that is the name of a
  member of \<open>Object.prototype\<close>: \<open>properties['toString']\<close> is the inherited function.
\<close>

lemma layer_name_scan_inherited:
  "loadFeature_layerData sample_host [(''title'', PString ''A'')] [''toString'', ''title''] 0
     = ([(''title'', TypedValue (PString ''A'') (Some ''string'')),
         (''$type'', TypeItem ''SmdxElement''), (''name'', Text ''1'')], 1)"
  by (simp add: loadFeature_layerData_def assignLayerName_def featureProps_def set_property_def
      get_property_def Object_prototype_def nat_toString_1)

lemma layerData_first_valid:
  assumes "map_of props ''name'' = None"
    and "\<forall>c\<in>set skipped. spec_skipped (get_property props c)"
    and "spec_formatted h (get_property props c) = Some s"
  shows "map_of (fst (loadFeature_layerData h props (skipped @ c # rest) ids)) ''name''
           = Some (Text s)
         \<and> snd (loadFeature_layerData h props (skipped @ c # rest) ids) = ids"
proof -
  have "assignLayerName_loop h props (skipped @ c # rest) = Some s"
    using loop_skipped[OF assms(2), of h "c # rest"] loop_formatted[OF assms(3), of rest]
    by simp
  then show ?thesis
    using layerData_no_name[OF assms(1), of h]
    by (simp add: loadFeature_layerData_def assignLayerName_def update_conv')
qed

text \<open>
  C2, amended. For every feature that has no attribute called \<open>name\<close> and every approved
  candidate list: when the candidates before a candidate \<open>c\<close> are all skipped (reading them
  from the feature gives \<open>undefined\<close>, or a number that is not finite, an empty text or an
  invalid date) and the value of \<open>c\<close> is valid, the layer is named by that value,
  formatted (a number by \<open>toString\<close>, a text as it is, a date by \<open>toLocaleString\<close>); the
  scan ends there, whatever candidates follow, and the fallback counter is not touched. In
  particular, when the value of \<open>c\<close> is a whole number of magnitude at most \<open>2^53\<close>, the
  name is its decimal string. A feature that has an attribute called \<open>name\<close> is not
  scanned, whatever the approved candidates and their values are: the \<open>name\<close> of its
  layer data is the typed attribute made by \<open>featurePropValue\<close>, the layer data is what
  \<open>featureProps\<close> built plus the \<open>$type\<close>, and the counter is as before.
\<close>

theorem layer_name_first_valid:
  "(map_of props ''name'' = None
      \<and> (\<forall>c\<in>set skipped. spec_skipped (get_property props c))
      \<and> spec_formatted h (get_property props c) = Some s \<longrightarrow>
        map_of (fst (loadFeature_layerData h props (skipped @ c # rest) ids)) ''name''
          = Some (Text s)
      \<and> snd (loadFeature_layerData h props (skipped @ c # rest) ids) = ids)
   \<and> (map_of props ''name'' = None
      \<and> (\<forall>c\<in>set skipped. spec_skipped (get_property props c))
      \<and> map_of props c = Some (PNumber (Finite (of_int i))) \<and> \<bar>i\<bar> \<le> 2 ^ 53 \<longrightarrow>
        map_of (fst (loadFeature_layerData h props (skipped @ c # rest) ids)) ''name''
          = Some (Text (int_toString i)))
   \<and> (distinct (map fst props) \<and> map_of props ''name'' = Some v \<longrightarrow>
        map_of (fst (loadFeature_layerData h props layerNames ids)) ''name''
          = Some (fst (featurePropValue h v))
      \<and> loadFeature_layerData h props layerNames ids
          = (AList.update ''$type'' (TypeItem ''SmdxElement'') (fst (featureProps h props)), ids))"
proof (intro conjI impI)
  assume a: "map_of props ''name'' = None
      \<and> (\<forall>c\<in>set skipped. spec_skipped (get_property props c))
      \<and> spec_formatted h (get_property props c) = Some s"
  then have "map_of (fst (loadFeature_layerData h props (skipped @ c # rest) ids)) ''name''
           = Some (Text s)
         \<and> snd (loadFeature_layerData h props (skipped @ c # rest) ids) = ids"
    using layerData_first_valid[of props skipped h c s rest ids] by blast
  then show "map_of (fst (loadFeature_layerData h props (skipped @ c # rest) ids)) ''name''
          = Some (Text s)"
    and "snd (loadFeature_layerData h props (skipped @ c # rest) ids) = ids"
    by simp_all
next
  assume a: "map_of props ''name'' = None
      \<and> (\<forall>c\<in>set skipped. spec_skipped (get_property props c))
      \<and> map_of props c = Some (PNumber (Finite (of_int i))) \<and> \<bar>i\<bar> \<le> 2 ^ 53"
  then have "spec_formatted h (get_property props c) = Some (int_toString i)"
    using number_toString_whole[of i h]
    by (simp add: spec_formatted_def get_property_def del: number_toString.simps)
  then show "map_of (fst (loadFeature_layerData h props (skipped @ c # rest) ids)) ''name''
          = Some (Text (int_toString i))"
    using a layerData_first_valid[of props skipped h c "int_toString i" rest ids] by blast
next
  assume a: "distinct (map fst props) \<and> map_of props ''name'' = Some v"
  then have d: "loadFeature_layerData h props layerNames ids
          = (AList.update ''$type'' (TypeItem ''SmdxElement'') (fst (featureProps h props)), ids)"
    using layerData_named[of props h layerNames ids] by simp
  then show "loadFeature_layerData h props layerNames ids
          = (AList.update ''$type'' (TypeItem ''SmdxElement'') (fst (featureProps h props)), ids)" .
  show "map_of (fst (loadFeature_layerData h props layerNames ids)) ''name''
          = Some (fst (featurePropValue h v))"
    using a layerData_name_typed[of props v h] by (simp add: d)
qed

theorem layer_name_first_valid_witness:
  "map_of (fst (loadFeature_layerData sample_host
       [(''code'', PNumber NaN), (''title'', PString ''Lot 1''), (''area'', PNumber (Finite 7))]
       [''owner'', ''code'', ''title'', ''area''] 4)) ''name'' = Some (Text ''Lot 1'')
   \<and> snd (loadFeature_layerData sample_host
       [(''code'', PNumber NaN), (''title'', PString ''Lot 1''), (''area'', PNumber (Finite 7))]
       [''owner'', ''code'', ''title'', ''area''] 4) = 4
   \<and> map_of (fst (loadFeature_layerData sample_host
       [(''code'', PNumber NaN), (''title'', PString ''Lot 1''), (''area'', PNumber (Finite 7))]
       [''code'', ''area'', ''title''] 4)) ''name'' = Some (Text ''7'')
   \<and> map_of (fst (loadFeature_layerData sample_host
       [(''name'', PString ''Lot 1''), (''title'', PString ''T'')] [''title''] 4)) ''name''
       = Some (TypedValue (PString ''Lot 1'') (Some ''string''))
   \<and> snd (loadFeature_layerData sample_host
       [(''name'', PString ''Lot 1''), (''title'', PString ''T'')] [''title''] 4) = 4"
proof -
  let ?props = "[(''code'', PNumber NaN), (''title'', PString ''Lot 1''),
                 (''area'', PNumber (Finite 7))]"
  let ?named = "[(''name'', PString ''Lot 1''), (''title'', PString ''T'')]"
  have 1: "map_of ?props ''name'' = None
      \<and> (\<forall>c\<in>set [''owner'', ''code'']. spec_skipped (get_property ?props c))
      \<and> spec_formatted sample_host (get_property ?props ''title'') = Some ''Lot 1''"
    by (simp add: spec_skipped_def spec_formatted_def get_property_def Object_prototype_def)
  have 2: "map_of ?props ''name'' = None
      \<and> (\<forall>c\<in>set [''code'']. spec_skipped (get_property ?props c))
      \<and> map_of ?props ''area'' = Some (PNumber (Finite (of_int 7))) \<and> \<bar>7::int\<bar> \<le> 2 ^ 53"
    by (simp add: spec_skipped_def get_property_def Object_prototype_def)
  have 3: "distinct (map fst ?named)
      \<and> map_of ?named ''name'' = Some (PString ''Lot 1'')"
    by simp
  have 4: "int_toString 7 = ''7''"
    by (simp add: int_toString_def nat_toString_7)
  show ?thesis
    using layer_name_first_valid [where props = ?props and skipped = "[''owner'', ''code'']"
        and c = "''title''" and s = "''Lot 1''" and rest = "[''area'']" and ids = 4
        and h = sample_host and i = 0] 1
      layer_name_first_valid [where props = ?props and skipped = "[''code'']"
        and c = "''area''" and i = 7 and rest = "[''title'']" and ids = 4
        and h = sample_host and s = "''7''"] 2 4
      layer_name_first_valid [where props = ?named and v = "PString ''Lot 1''"
        and layerNames = "[''title'']" and ids = 4 and h = sample_host and i = 0
        and skipped = "[]" and c = "''title''" and s = "''T''" and rest = "[]"] 3
    by (simp add: featureProps_def set_property_def del: number_toString.simps)
qed

subsection \<open>Runs\<close>

lemma io_bind_apply:
  "io_bind m k w = (case m w of (Inl e, w') \<Rightarrow> (Inl e, w') | (Inr x, w') \<Rightarrow> k x w')"
  by (simp add: io_bind_def)

lemma emit_apply: "emit e w = (Inr (), w @ [e])"
  by (simp add: emit_def)

lemma io_return_apply: "io_return x w = (Inr x, w)"
  by (simp add: io_return_def)

lemma emits_return: "emits pr (io_return x) []"
  by (simp add: emits_def io_return_def)

lemma emits_emit: "pr e = xs \<Longrightarrow> emits pr (emit e) xs"
  by (auto simp: emits_def emit_def)

lemma emits_await: "pr e = xs \<Longrightarrow> emits pr (await h e) xs"
  by (auto simp: emits_def await_def split: option.splits)

lemma emits_bind:
  assumes m: "emits pr m xs" and k: "\<And>x. emits pr (k x) ys"
  shows "emits pr (io_bind m k) (xs @ ys)"
  unfolding emits_def
proof
  fix w
  obtain e1 where e1: "snd (m w) = w @ e1" "prefix (concat (map pr e1)) xs"
      "\<forall>r. fst (m w) = Inr r \<longrightarrow> concat (map pr e1) = xs"
    using m unfolding emits_def by blast
  show "\<exists>evs. snd (io_bind m k w) = w @ evs \<and> prefix (concat (map pr evs)) (xs @ ys)
          \<and> (\<forall>r. fst (io_bind m k w) = Inr r \<longrightarrow> concat (map pr evs) = xs @ ys)"
  proof (cases "fst (m w)")
    case (Inl e)
    then have "io_bind m k w = (Inl e, w @ e1)"
      using e1(1) by (cases "m w") (simp add: io_bind_apply)
    then show ?thesis using e1(2) by (auto intro: exI[of _ e1])
  next
    case (Inr x)
    then have b: "io_bind m k w = k x (w @ e1)"
      using e1(1) by (cases "m w") (simp add: io_bind_apply)
    have x1: "concat (map pr e1) = xs" using e1(3) Inr by simp
    obtain e2 where e2: "snd (k x (w @ e1)) = (w @ e1) @ e2" "prefix (concat (map pr e2)) ys"
      "\<forall>r. fst (k x (w @ e1)) = Inr r \<longrightarrow> concat (map pr e2) = ys"
      using k[of x] unfolding emits_def by blast
    show ?thesis
      using e2 x1 by (auto simp: b intro!: exI[of _ "e1 @ e2"])
  qed
qed

lemma emits_bind_nil:
  "emits pr m xs \<Longrightarrow> (\<And>x. emits pr (k x) []) \<Longrightarrow> emits pr (io_bind m k) xs"
  using emits_bind[of pr m xs k "[]"] by simp

lemma emits_mapM:
  "(\<And>x. x \<in> set xs \<Longrightarrow> emits pr (f x) (g x)) \<Longrightarrow>
   emits pr (io_mapM f xs) (concat (map g xs))"
proof (induction xs)
  case Nil
  show ?case by (simp add: emits_return)
next
  case (Cons x xs)
  have "emits pr (io_bind (io_mapM f xs) (\<lambda>ys. io_return (y # ys))) (concat (map g xs))" for y
    using Cons by (intro emits_bind_nil) (simp_all add: emits_return)
  then have "emits pr (io_bind (f x) (\<lambda>y. io_bind (io_mapM f xs) (\<lambda>ys. io_return (y # ys))))
      (g x @ concat (map g xs))"
    using Cons.prems by (intro emits_bind) simp_all
  then show ?case by simp
qed

lemma emits_setx:
  "pr (SetxLayer entity layer) = [] \<Longrightarrow>
   emits pr (io_bind (await h (SetxLayer entity layer)) (\<lambda>_. io_return c)) []"
  by (intro emits_bind_nil emits_await emits_return)

subsection \<open>Dataset Grouper\<close>

text \<open>
  C9, as the specification states it, fails: the byte buffer of a file is fetched
  before its extension is looked at. For \<open>notes.txt\<close>, whose extension \<open>txt\<close> is not
  recognized, the trace of \<open>addToGroups\<close> starts with the fetch \<open>ItemGet\<close>; the warning
  comes after it.
\<close>

theorem addToGroups_fetch_counterexample:
  "addToGroups sample_host [] notes_txt []
     = (Inr [], [ItemGet ''notes.txt'', ProgressDetails ''notes.txt'',
          OutputsError ''Unsupported extension {0}'' ''txt''])"
  by (simp add: addToGroups_def io_bind_apply await_def emit_apply io_return_apply Let_def
      sample_host_def ALLOWED_EXTENSIONS_def notes_txt_def)

text \<open>
  C9, amended. During grouping, the byte buffer of every file is fetched from the host,
  whatever its extension: the fetch is the first thing \<open>addToGroups\<close> does, before the
  extension is computed and checked, also when the host then rejects the fetch.
\<close>

theorem addToGroups_fetches_first:
  "\<exists>rest. snd (addToGroups h groups item w) = w @ ItemGet (title item) # rest"
proof (cases "rejects h (w @ [ItemGet (title item)])")
  case None
  then show ?thesis
    by (simp add: addToGroups_def io_bind_apply await_def emit_apply io_return_apply Let_def
        split: js_property.splits)
next
  case (Some x)
  then show ?thesis
    by (simp add: addToGroups_def io_bind_apply await_def)
qed

text \<open>
  A file whose base name is the name of a member of \<open>Object.prototype\<close> is fetched and
  accepted, and yet joins no dataset: \<open>groups['valueOf']\<close> is the inherited function.
\<close>

lemma addToGroups_inherited_name:
  "addToGroups sample_host []
       (WorkspaceItem ''valueOf.shp'' (MimeOther ''application/octet-stream'')
          (Bytes [0, 0, 39, 10] 0 4) []) []
     = (Inr [], [ItemGet ''valueOf.shp'', ProgressDetails ''valueOf.shp''])"
  by (simp add: addToGroups_def io_bind_apply await_def emit_apply io_return_apply Let_def
      sample_host_def ALLOWED_EXTENSIONS_def get_property_def Object_prototype_def)

text \<open>
  C8, as the specification states it, fails when the host cannot deliver the bytes of the
  file: the fetch comes first, its exception ends the grouping run, no warning about the
  extension is logged and the remaining file \<open>parcels.shp\<close> is never looked at.
\<close>

theorem extractGroups_unreadable_counterexample:
  "extractGroups unreadable_host [] [notes_txt, parcels_shp] []
     = (Inl (HostError ''unreadable''), [ItemGet ''notes.txt''])"
  by (simp add: notes_txt_def parcels_shp_def addToGroups_def io_bind_apply await_def
      unreadable_host_def sample_host_def)

text \<open>
  C8, amended. For every input file whose extension is not in the recognized set: when the
  host delivers its bytes, \<open>addToGroups\<close> returns the groups unchanged (the file's
  contents are in no dataset), logs exactly one warning, which names the extension, after
  the fetch and the progress detail, and \<open>extractGroups\<close> goes on with the remaining
  files from there; when the host rejects the fetch, nothing is logged and the exception
  ends \<open>extractGroups\<close>.
\<close>

theorem addToGroups_unrecognized:
  assumes "drop (length t - 3) t \<notin> set ALLOWED_EXTENSIONS"
  shows "(rejects h (w @ [ItemGet t]) = None \<longrightarrow>
            addToGroups h groups (WorkspaceItem t (MimeOther v) c ch) w
              = (Inr groups, w @ [ItemGet t, ProgressDetails t,
                   OutputsError ''Unsupported extension {0}'' (drop (length t - 3) t)])
          \<and> extractGroups h groups (WorkspaceItem t (MimeOther v) c ch # items) w
              = extractGroups h groups items (w @ [ItemGet t, ProgressDetails t,
                   OutputsError ''Unsupported extension {0}'' (drop (length t - 3) t)]))
       \<and> (\<forall>x. rejects h (w @ [ItemGet t]) = Some x \<longrightarrow>
            extractGroups h groups (WorkspaceItem t (MimeOther v) c ch # items) w
              = (Inl x, w @ [ItemGet t]))"
proof (intro conjI impI allI)
  assume r: "rejects h (w @ [ItemGet t]) = None"
  show a: "addToGroups h groups (WorkspaceItem t (MimeOther v) c ch) w
           = (Inr groups, w @ [ItemGet t, ProgressDetails t,
                OutputsError ''Unsupported extension {0}'' (drop (length t - 3) t)])"
    using assms r
    by (simp add: addToGroups_def io_bind_apply await_def emit_apply io_return_apply Let_def)
  show "extractGroups h groups (WorkspaceItem t (MimeOther v) c ch # items) w
           = extractGroups h groups items (w @ [ItemGet t, ProgressDetails t,
                OutputsError ''Unsupported extension {0}'' (drop (length t - 3) t)])"
    by (simp add: a io_bind_apply)
next
  fix x
  assume "rejects h (w @ [ItemGet t]) = Some x"
  then show "extractGroups h groups (WorkspaceItem t (MimeOther v) c ch # items) w
              = (Inl x, w @ [ItemGet t])"
    by (simp add: addToGroups_def io_bind_apply await_def)
qed

theorem addToGroups_unrecognized_witness:
  "addToGroups sample_host [(''parcels'', [(''shp'', [0, 0, 39, 10])])] notes_txt []
     = (Inr [(''parcels'', [(''shp'', [0, 0, 39, 10])])],
        [ItemGet ''notes.txt'', ProgressDetails ''notes.txt'',
         OutputsError ''Unsupported extension {0}'' ''txt''])
   \<and> extractGroups sample_host [] [notes_txt, parcels_shp] []
     = (Inr [(''parcels'', [(''shp'', [0, 0, 39, 10])])],
        [ItemGet ''notes.txt'', ProgressDetails ''notes.txt'',
         OutputsError ''Unsupported extension {0}'' ''txt'',
         ItemGet ''parcels.shp'', ProgressDetails ''parcels.shp''])
   \<and> extractGroups unreadable_host [] [notes_txt] []
     = (Inl (HostError ''unreadable''), [ItemGet ''notes.txt''])"
proof -
  have 1: "rejects sample_host ([] @ [ItemGet ''notes.txt'']) = None"
    by (simp add: sample_host_def)
  have 2: "drop (length ''notes.txt'' - 3) ''notes.txt'' \<notin> set ALLOWED_EXTENSIONS"
    by (simp add: ALLOWED_EXTENSIONS_def)
  have 3: "extractGroups sample_host [] [parcels_shp]
       [ItemGet ''notes.txt'', ProgressDetails ''notes.txt'',
        OutputsError ''Unsupported extension {0}'' ''txt'']
     = (Inr [(''parcels'', [(''shp'', [0, 0, 39, 10])])],
        [ItemGet ''notes.txt'', ProgressDetails ''notes.txt'',
         OutputsError ''Unsupported extension {0}'' ''txt'',
         ItemGet ''parcels.shp'', ProgressDetails ''parcels.shp''])"
    by (simp add: parcels_shp_def addToGroups_def io_bind_apply await_def emit_apply
        io_return_apply Let_def sample_host_def ALLOWED_EXTENSIONS_def get_property_def
        Object_prototype_def)
  have 4: "rejects unreadable_host ([] @ [ItemGet ''notes.txt'']) = Some (HostError ''unreadable'')"
    by (simp add: unreadable_host_def sample_host_def)
  show ?thesis
    using addToGroups_unrecognized [OF 2, where h = sample_host and w = "[]"
        and groups = "[(''parcels'', [(''shp'', [0, 0, 39, 10])])]" and v = "''text/plain''"
        and c = "Bytes [110, 111] 0 2" and ch = "[]" and items = "[]"]
      addToGroups_unrecognized [OF 2, where h = sample_host and w = "[]" and groups = "[]"
        and v = "''text/plain''" and c = "Bytes [110, 111] 0 2" and ch = "[]" and items = "[parcels_shp]"]
      addToGroups_unrecognized [OF 2, where h = unreadable_host and w = "[]" and groups = "[]"
        and v = "''text/plain''" and c = "Bytes [110, 111] 0 2" and ch = "[]" and items = "[]"]
      1 3 4
    by (simp add: notes_txt_def)
qed

subsection \<open>Import Orchestrator\<close>

text \<open>
  C10. If the host drawing has no model layout (\<open>drawing.layouts\<close> is missing, or its
  \<open>model\<close> is), \<open>import\<close> returns without an exception, and all it has done is: begin
  the progress, create the output channel, log the info line, set the progress to
  indeterminate and end the progress. No file is listed or fetched, nothing is decoded,
  the user is not asked, no layer or entity is created and no error is logged.
\<close>

theorem import_without_layout:
  assumes "layouts drawing = None \<or> (\<exists>ls. layouts drawing = Some ls \<and> model ls = None)"
  shows "SHPImporter_import h workspace drawing w
     = (Inr (), w @ [BeginProgress, CreateOutputChannel ''SHP'',
          OutputsInfo (tr h MsgImportShapeFrom
            [case origin workspace of Some s \<Rightarrow> s | None \<Rightarrow> title (root workspace)]),
          ProgressIndeterminate True, EndProgress])"
  using assms
  by (auto simp: SHPImporter_import_def import_body_def io_bind_apply emit_apply
      io_return_apply try_finally_def try_catch_def Let_def)

theorem import_without_layout_witness:
  "SHPImporter_import sample_host \<lparr> origin = None, root = WorkspaceItem ''survey'' MimeFolder (Bytes [] 0 0) [parcels_shp] \<rparr>
       \<lparr> layouts = Some \<lparr> model = None \<rparr> \<rparr> []
     = (Inr (), [BeginProgress, CreateOutputChannel ''SHP'', OutputsInfo ''survey'',
          ProgressIndeterminate True, EndProgress])"
  using import_without_layout [of "\<lparr> layouts = Some \<lparr> model = None \<rparr> \<rparr>" sample_host
      "\<lparr> origin = None, root = WorkspaceItem ''survey'' MimeFolder (Bytes [] 0 0) [parcels_shp] \<rparr>" "[]"]
  by (simp add: sample_host_def)

subsection \<open>Geometry Mapper\<close>

lemma emits_featureGeometry_circle: "emits event_coordinates (featureGeometry_circle h layer c) [vertex c]"
  unfolding featureGeometry_circle_def vertex_def
  by (intro emits_bind_nil emits_await emits_setx) simp_all

lemma emits_featureGeometry_polyline:
  "emits event_coordinates (featureGeometry_polyline h layer cs) (map vertex cs)"
  unfolding featureGeometry_polyline_def Let_def
  by (intro emits_bind_nil emits_await emits_setx) (simp_all add: vertex_def)

lemma length_2: "length cs = 2 \<Longrightarrow> cs = [cs ! 0, cs ! 1]"
  by (cases cs; cases "tl cs") auto

lemma emits_featureGeometry_line:
  "emits event_coordinates (featureGeometry_line h layer cs) (map vertex cs)"
proof (cases "length cs = 2")
  case True
  have "map vertex cs = [vertex (cs ! 0), vertex (cs ! 1)]"
    using length_2[OF True] by (metis list.simps(8) list.simps(9))
  then show ?thesis
    unfolding featureGeometry_line_def using True
    by (simp add: vertex_def) (intro emits_bind_nil emits_await emits_setx, simp_all)
next
  case False
  then show ?thesis by (simp add: featureGeometry_line_def emits_featureGeometry_polyline)
qed

lemma emits_featureGeometry:
  "emits event_coordinates (featureGeometry h layer g) (map vertex (geometry_coordinates g))"
proof (cases g)
  case (Point c)
  show ?thesis using emits_bind_nil[OF emits_featureGeometry_circle, of "\<lambda>c'. io_return (Point c')"]
    by (simp add: Point emits_return)
next
  case (LineString cs bbox)
  show ?thesis
    using emits_bind_nil[OF emits_featureGeometry_line, of "\<lambda>cs'. io_return (LineString cs' bbox)"]
    by (simp add: LineString emits_return)
next
  case (Polygon rings bbox)
  have "emits event_coordinates (io_mapM (featureGeometry_polyline h layer) rings)
          (concat (map (map vertex) rings))"
    by (rule emits_mapM) (rule emits_featureGeometry_polyline)
  then show ?thesis
    using emits_bind_nil[of event_coordinates _ _ "\<lambda>rings'. io_return (Polygon rings' bbox)"]
    by (simp add: Polygon emits_return map_concat)
next
  case (MultiPoint cs)
  have "emits event_coordinates (io_mapM (featureGeometry_circle h layer) cs)
          (concat (map (\<lambda>c. [vertex c]) cs))"
    by (rule emits_mapM) (rule emits_featureGeometry_circle)
  moreover have "concat (map (\<lambda>c. [vertex c]) cs) = map vertex cs"
    by (induction cs) simp_all
  ultimately show ?thesis
    using emits_bind_nil[of event_coordinates _ _ "\<lambda>cs'. io_return (MultiPoint cs')"]
    by (simp add: MultiPoint emits_return)
next
  case (MultiLineString ls)
  have "emits event_coordinates (io_mapM (featureGeometry_line h layer) ls)
          (concat (map (map vertex) ls))"
    by (rule emits_mapM) (rule emits_featureGeometry_line)
  then show ?thesis
    using emits_bind_nil[of event_coordinates _ _ "\<lambda>ls'. io_return (MultiLineString ls')"]
    by (simp add: MultiLineString emits_return map_concat)
next
  case (MultiPolygon ps)
  have "emits event_coordinates (io_mapM (io_mapM (featureGeometry_polyline h layer)) ps)
          (concat (map (\<lambda>p. concat (map (map vertex) p)) ps))"
    by (rule emits_mapM) (rule emits_mapM, rule emits_featureGeometry_polyline)
  moreover have "concat (map (\<lambda>p. concat (map (map vertex) p)) ps)
      = map vertex (concat (map concat ps))"
    by (induction ps) (simp_all add: map_concat)
  ultimately show ?thesis
    using emits_bind_nil[of event_coordinates _ _ "\<lambda>ps'. io_return (MultiPolygon ps')"]
    by (simp add: MultiPolygon emits_return)
next
  case (OtherGeometry ty)
  show ?thesis
    by (simp add: OtherGeometry) (intro emits_bind_nil emits_emit emits_return, simp)
qed

lemma vertex_eq:
  "vertex = (\<lambda>c. case c of Vec2 x y \<Rightarrow> (x * SCALE, y * SCALE, 0 * SCALE)
                          | Vec3 x y z \<Rightarrow> (x * SCALE, y * SCALE, z * SCALE))"
  by (rule ext) (simp add: vertex_def split: Coord.splits)

text \<open>
  C6. For every geometry, the coordinates handed to the entity editor by
  \<open>featureGeometry\<close> (the centre of each circle, the two ends of each line, the vertices
  of each polyline), taken in order, are the coordinates of the input geometry in order,
  each right-padded with \<open>z = 0\<close> when it has two components and multiplied component by
  component by \<open>SCALE\<close>: all of them when the call returns, and an initial part of them
  when a host call throws. As \<open>SCALE = 1\<close>, they are the input coordinates, padded.
\<close>

theorem featureGeometry_coordinates:
  "\<exists>evs. snd (featureGeometry h layer g w) = w @ evs
     \<and> prefix (concat (map event_coordinates evs))
          (map (\<lambda>c. case c of Vec2 x y \<Rightarrow> (x * SCALE, y * SCALE, 0 * SCALE)
                             | Vec3 x y z \<Rightarrow> (x * SCALE, y * SCALE, z * SCALE))
             (geometry_coordinates g))
     \<and> (\<forall>g'. fst (featureGeometry h layer g w) = Inr g' \<longrightarrow>
          concat (map event_coordinates evs)
            = map (\<lambda>c. case c of Vec2 x y \<Rightarrow> (x * SCALE, y * SCALE, 0 * SCALE)
                                | Vec3 x y z \<Rightarrow> (x * SCALE, y * SCALE, z * SCALE))
                (geometry_coordinates g))
     \<and> map (\<lambda>c. case c of Vec2 x y \<Rightarrow> (x * SCALE, y * SCALE, 0 * SCALE)
                         | Vec3 x y z \<Rightarrow> (x * SCALE, y * SCALE, z * SCALE))
          (geometry_coordinates g)
        = map (\<lambda>c. case c of Vec2 x y \<Rightarrow> (x, y, 0) | Vec3 x y z \<Rightarrow> (x, y, z))
            (geometry_coordinates g)"
proof -
  have s: "(\<lambda>c. case c of Vec2 x y \<Rightarrow> (x * SCALE, y * SCALE, 0 * SCALE)
                         | Vec3 x y z \<Rightarrow> (x * SCALE, y * SCALE, z * SCALE))
         = (\<lambda>c. case c of Vec2 x y \<Rightarrow> (x, y, 0) | Vec3 x y z \<Rightarrow> (x, y, z))"
    by (rule ext) (simp add: SCALE_def split: Coord.splits)
  show ?thesis
    using emits_featureGeometry[of h layer g]
    unfolding emits_def vertex_eq s by blast
qed

theorem featureGeometry_coordinates_witness:
  "\<exists>evs. snd (featureGeometry sample_host 0 (LineString [Vec2 0 0, Vec2 4 3] []) []) = [] @ evs
     \<and> concat (map event_coordinates evs) = [(0, 0, 0), (4, 3, 0)]"
proof -
  let ?g = "LineString [Vec2 0 0, Vec2 4 3] []"
  have r: "fst (featureGeometry sample_host 0 ?g []) = Inr ?g"
    by (simp add: featureGeometry_line_def io_bind_apply await_def io_return_apply sample_host_def)
  obtain evs where evs: "snd (featureGeometry sample_host 0 ?g []) = [] @ evs"
    "\<forall>g'. fst (featureGeometry sample_host 0 ?g []) = Inr g' \<longrightarrow>
       concat (map event_coordinates evs)
         = map (\<lambda>c. case c of Vec2 x y \<Rightarrow> (x * SCALE, y * SCALE, 0 * SCALE)
                             | Vec3 x y z \<Rightarrow> (x * SCALE, y * SCALE, z * SCALE))
             (geometry_coordinates ?g)"
    using featureGeometry_coordinates [of sample_host 0 ?g "[]"] by blast
  have "concat (map event_coordinates evs) = [(0, 0, 0), (4, 3, 0)]"
    using evs(2) r by (simp add: SCALE_def)
  then show ?thesis using evs(1) by blast
qed

lemma returns_return: "returns (io_return x) x"
  by (simp add: returns_def io_return_def)

lemma returns_bind:
  assumes "returns m x" and "returns (k x) y"
  shows "returns (io_bind m k) y"
  unfolding returns_def
proof (intro allI impI)
  fix w r
  assume a: "fst (io_bind m k w) = Inr r"
  show "r = y"
  proof (cases "m w")
    case (Pair res w')
    show ?thesis
    proof (cases res)
      case (Inl e)
      then show ?thesis using a Pair by (simp add: io_bind_apply)
    next
      case (Inr x')
      then have "x' = x" using assms(1) Pair unfolding returns_def by (metis fst_conv)
      then show ?thesis using a Pair Inr assms(2) unfolding returns_def
        by (simp add: io_bind_apply)
    qed
  qed
qed

lemma returns_bind_any:
  assumes "\<And>x. returns (k x) y"
  shows "returns (io_bind m k) y"
  unfolding returns_def
proof (intro allI impI)
  fix w r
  assume a: "fst (io_bind m k w) = Inr r"
  show "r = y"
  proof (cases "m w")
    case (Pair res w')
    show ?thesis
    proof (cases res)
      case (Inl e)
      then show ?thesis using a Pair by (simp add: io_bind_apply)
    next
      case (Inr x')
      then show ?thesis using a Pair assms[of x'] unfolding returns_def
        by (simp add: io_bind_apply)
    qed
  qed
qed

lemma returns_mapM:
  "(\<And>x. x \<in> set xs \<Longrightarrow> returns (f x) (F x)) \<Longrightarrow> returns (io_mapM f xs) (map F xs)"
proof (induction xs)
  case Nil
  show ?case by (simp add: returns_return)
next
  case (Cons x xs)
  have 1: "returns (f x) (F x)" using Cons.prems by simp
  have 2: "returns (io_mapM f xs) (map F xs)" using Cons by simp
  have "returns (io_bind (io_mapM f xs) (\<lambda>ys. io_return (F x # ys))) (F x # map F xs)"
    by (rule returns_bind[OF 2]) (rule returns_return)
  then show ?case
    using returns_bind[OF 1, of "\<lambda>y. io_bind (io_mapM f xs) (\<lambda>ys. io_return (y # ys))"]
    by simp
qed

lemma returns_featureGeometry_circle: "returns (featureGeometry_circle h layer c) c"
  unfolding featureGeometry_circle_def by (intro returns_bind_any returns_return)

lemma returns_featureGeometry_polyline: "returns (featureGeometry_polyline h layer cs) (ring_after cs)"
  unfolding featureGeometry_polyline_def Let_def ring_after_def vertex_def
  by (intro returns_bind_any) (simp add: returns_return comp_def)

lemma returns_featureGeometry_line: "returns (featureGeometry_line h layer cs) (line_after cs)"
  unfolding featureGeometry_line_def line_after_def
  by (auto intro!: returns_bind_any returns_return simp: returns_featureGeometry_polyline)

lemma returns_featureGeometry: "returns (featureGeometry h layer g) (geometry_after g)"
proof (cases g)
  case (Point c)
  show ?thesis unfolding Point
    by (simp, rule returns_bind[OF returns_featureGeometry_circle]) (rule returns_return)
next
  case (LineString cs bbox)
  show ?thesis unfolding LineString
    by (simp, rule returns_bind[OF returns_featureGeometry_line]) (rule returns_return)
next
  case (Polygon rings bbox)
  have r: "returns (io_mapM (featureGeometry_polyline h layer) rings) (map ring_after rings)"
    by (rule returns_mapM) (rule returns_featureGeometry_polyline)
  show ?thesis unfolding Polygon
    by (simp, rule returns_bind[OF r]) (rule returns_return)
next
  case (MultiPoint cs)
  have "returns (io_mapM (featureGeometry_circle h layer) cs) (map (\<lambda>c. c) cs)"
    by (rule returns_mapM) (rule returns_featureGeometry_circle)
  then have r: "returns (io_mapM (featureGeometry_circle h layer) cs) cs"
    by simp
  show ?thesis unfolding MultiPoint
    by (simp, rule returns_bind[OF r]) (rule returns_return)
next
  case (MultiLineString ls)
  have r: "returns (io_mapM (featureGeometry_line h layer) ls) (map line_after ls)"
    by (rule returns_mapM) (rule returns_featureGeometry_line)
  show ?thesis unfolding MultiLineString
    by (simp, rule returns_bind[OF r]) (rule returns_return)
next
  case (MultiPolygon ps)
  have r: "returns (io_mapM (io_mapM (featureGeometry_polyline h layer)) ps) (map (map ring_after) ps)"
    by (rule returns_mapM) (rule returns_mapM, rule returns_featureGeometry_polyline)
  show ?thesis unfolding MultiPolygon
    by (simp, rule returns_bind[OF r]) (rule returns_return)
next
  case (OtherGeometry ty)
  show ?thesis unfolding OtherGeometry
    by (simp, intro returns_bind_any) (rule returns_return)
qed

lemma vec3_Coord_vertex: "coordinatesToVec3 (vec3_Coord (vertex c)) = coordinatesToVec3 c"
  by (cases c) (simp_all add: vertex_def SCALE_def)

lemma ring_after_points: "map coordinatesToVec3 (ring_after cs) = map coordinatesToVec3 cs"
  by (simp add: ring_after_def vec3_Coord_vertex)

lemma line_after_points: "map coordinatesToVec3 (line_after cs) = map coordinatesToVec3 cs"
  by (simp add: line_after_def ring_after_points)

lemma geometry_after_points:
  "map coordinatesToVec3 (geometry_coordinates (geometry_after g))
     = map coordinatesToVec3 (geometry_coordinates g)"
  by (cases g) (simp_all add: map_concat ring_after_points line_after_points comp_def)

lemma ring_after_3d:
  "\<forall>c\<in>set cs. \<exists>x y z. c = Vec3 x y z \<Longrightarrow> ring_after cs = cs"
  by (induction cs) (auto simp: ring_after_def vertex_def SCALE_def)

lemma line_after_3d:
  "\<forall>c\<in>set cs. \<exists>x y z. c = Vec3 x y z \<Longrightarrow> line_after cs = cs"
  by (simp add: line_after_def ring_after_3d)

lemma geometry_after_3d:
  "\<forall>c\<in>set (geometry_coordinates g). \<exists>x y z. c = Vec3 x y z \<Longrightarrow> geometry_after g = g"
proof (cases g)
  case (Polygon rings bbox)
  assume "\<forall>c\<in>set (geometry_coordinates g). \<exists>x y z. c = Vec3 x y z"
  then have "map ring_after rings = rings"
    unfolding Polygon by (intro map_idI ring_after_3d) auto
  then show ?thesis by (simp add: Polygon)
next
  case (MultiLineString ls)
  assume "\<forall>c\<in>set (geometry_coordinates g). \<exists>x y z. c = Vec3 x y z"
  then have "map line_after ls = ls"
    unfolding MultiLineString by (intro map_idI line_after_3d) auto
  then show ?thesis by (simp add: MultiLineString)
next
  case (MultiPolygon ps)
  assume "\<forall>c\<in>set (geometry_coordinates g). \<exists>x y z. c = Vec3 x y z"
  then have "map (map ring_after) ps = ps"
    unfolding MultiPolygon by (intro map_idI ring_after_3d) auto
  then show ?thesis by (simp add: MultiPolygon)
qed (simp_all add: line_after_3d)

text \<open>
  C5, as the specification states it, fails: mapping a line string of three
  two-component points overwrites the coordinate array of the input geometry, which holds
  three-component points afterwards.
\<close>

theorem featureGeometry_pure_counterexample:
  "featureGeometry sample_host 0 (LineString [Vec2 0 0, Vec2 4 0, Vec2 4 3] []) []
     = (Inr (LineString [Vec3 0 0 0, Vec3 4 0 0, Vec3 4 3 0] []),
        [AddPolyline3d [(0, 0, 0), (4, 0, 0), (4, 3, 0)], SetxLayer 0 0])"
  by (simp add: featureGeometry_line_def featureGeometry_polyline_def io_bind_apply await_def io_return_apply
      sample_host_def SCALE_def)

text \<open>
  C5, amended. For every input geometry, when the mapping returns, the input geometry
  object is as \<open>geometry_after\<close> describes: its rings, and its line strings other than
  those of exactly two points, have been overwritten in place by their points padded to
  three components (and scaled by 1). So the geometry denotes the same points as before;
  it is unchanged when every coordinate already had three components; and a Point, a
  MultiPoint and a LineString of exactly two points are never changed.
\<close>

theorem featureGeometry_input_afterwards:
  assumes "fst (featureGeometry h layer g w) = Inr g'"
  shows "g' = geometry_after g
       \<and> map coordinatesToVec3 (geometry_coordinates g')
           = map coordinatesToVec3 (geometry_coordinates g)
       \<and> ((\<forall>c\<in>set (geometry_coordinates g). \<exists>x y z. c = Vec3 x y z) \<longrightarrow> g' = g)
       \<and> ((\<exists>c. g = Point c) \<or> (\<exists>cs. g = MultiPoint cs) \<or> (\<exists>a b bbox. g = LineString [a, b] bbox)
            \<longrightarrow> g' = g)"
proof -
  have g': "g' = geometry_after g"
    using returns_featureGeometry[of h layer g] assms unfolding returns_def by blast
  show ?thesis
    unfolding g' using geometry_after_3d[of g]
    by (auto simp: geometry_after_points line_after_def)
qed

theorem featureGeometry_input_afterwards_witness:
  "fst (featureGeometry sample_host 0 (Polygon [[Vec2 0 0, Vec2 4 0, Vec2 0 0]] []) [])
     = Inr (Polygon [[Vec3 0 0 0, Vec3 4 0 0, Vec3 0 0 0]] [])
   \<and> Polygon [[Vec3 0 0 0, Vec3 4 0 0, Vec3 0 0 0]] []
     = geometry_after (Polygon [[Vec2 0 0, Vec2 4 0, Vec2 0 0]] [])
   \<and> fst (featureGeometry sample_host 0 (Polygon [[Vec3 0 0 0, Vec3 4 0 0, Vec3 0 0 0]] []) [])
     = Inr (Polygon [[Vec3 0 0 0, Vec3 4 0 0, Vec3 0 0 0]] [])
   \<and> fst (featureGeometry sample_host 0 (Point (Vec2 1 2)) []) = Inr (Point (Vec2 1 2))"
proof -
  have 1: "fst (featureGeometry sample_host 0 (Polygon [[Vec2 0 0, Vec2 4 0, Vec2 0 0]] []) [])
     = Inr (Polygon [[Vec3 0 0 0, Vec3 4 0 0, Vec3 0 0 0]] [])"
    by (simp add: featureGeometry_polyline_def io_bind_apply await_def io_return_apply sample_host_def
        SCALE_def)
  have 2: "fst (featureGeometry sample_host 0 (Polygon [[Vec3 0 0 0, Vec3 4 0 0, Vec3 0 0 0]] []) [])
     = Inr (Polygon [[Vec3 0 0 0, Vec3 4 0 0, Vec3 0 0 0]] [])"
    by (simp add: featureGeometry_polyline_def io_bind_apply await_def io_return_apply sample_host_def
        SCALE_def)
  have 3: "fst (featureGeometry sample_host 0 (Point (Vec2 1 2)) []) = Inr (Point (Vec2 1 2))"
    by (simp add: featureGeometry_circle_def io_bind_apply await_def io_return_apply sample_host_def)
  show ?thesis
    using featureGeometry_input_afterwards [OF 1] featureGeometry_input_afterwards [OF 2]
      featureGeometry_input_afterwards [OF 3] 1 2 3
    by simp
qed

subsection \<open>The fallback counter\<close>

lemmas run_simps = io_bind_apply await_def emit_apply io_return_apply emit_all_def Let_def
  try_finally_def try_catch_def

lemma ensures_return: "Q x \<Longrightarrow> ensures (io_return x) Q"
  by (simp add: ensures_def io_return_def)

lemma ensures_bind:
  assumes "ensures m P" and "\<And>x. P x \<Longrightarrow> ensures (k x) Q"
  shows "ensures (io_bind m k) Q"
  unfolding ensures_def
proof (intro allI impI)
  fix w r
  assume a: "fst (io_bind m k w) = Inr r"
  show "Q r"
  proof (cases "m w")
    case (Pair res w')
    show ?thesis
    proof (cases res)
      case (Inl e)
      then show ?thesis using a Pair by (simp add: io_bind_apply)
    next
      case (Inr x)
      then have "P x" using assms(1) Pair unfolding ensures_def by (metis fst_conv)
      then show ?thesis using a Pair Inr assms(2)[of x] unfolding ensures_def
        by (simp add: io_bind_apply)
    qed
  qed
qed

lemma ensures_True: "ensures m (\<lambda>r. True)"
  by (simp add: ensures_def)

lemma ensures_bind_any: "(\<And>x. ensures (k x) Q) \<Longrightarrow> ensures (io_bind m k) Q"
  by (rule ensures_bind[OF ensures_True])

lemma ensures_foldM:
  "(\<And>x s. ensures (f x s) (\<lambda>r. r = F x s)) \<Longrightarrow>
   ensures (io_foldM f xs s) (\<lambda>r. r = fold F xs s)"
proof (induction xs arbitrary: s)
  case Nil
  show ?case by (simp add: ensures_return)
next
  case (Cons x xs)
  show ?case
    by (simp, rule ensures_bind[OF Cons.prems[of x s]]) (simp add: Cons.IH[OF Cons.prems])
qed

lemma layerData_counter:
  "snd (loadFeature_layerData h props layerNames ids)
     = ids + (if fallback_named h layerNames (Feature g props) then 1 else 0)"
  by (simp add: loadFeature_layerData_def assignLayerName_def layerData_name_iff
      fallback_named_def split: option.splits)

lemma ensures_loadFeature:
  "ensures (loadFeature h g props layerNames ids)
     (\<lambda>r. snd r = ids + (if fallback_named h layerNames (Feature g props) then 1 else 0))"
  unfolding loadFeature_def Let_def
  by (intro ensures_bind_any ensures_return) (simp add: layerData_counter[of h props layerNames ids g])

lemma count_fold:
  "fold (\<lambda>x s. s + (if P x then 1 else 0)) xs (s::nat) = s + length (filter P xs)"
  by (induction xs arbitrary: s) simp_all

lemma ensures_loadShapes_features:
  "ensures (loadShapes_features h parent layerNames features ids)
     (\<lambda>r. r = ids + length (filter (fallback_named h layerNames) features))"
proof -
  have "ensures (loadShapes_features h parent layerNames features ids)
     (\<lambda>r. r = fold (\<lambda>x s. s + (if fallback_named h layerNames x then 1 else 0)) features ids)"
    unfolding loadShapes_features_def
  proof (rule ensures_foldM)
    fix x s
    show "ensures (case x of
             Feature geometry props \<Rightarrow>
               io_bind (loadFeature h geometry props layerNames s) (\<lambda>(layer, ids').
                 io_bind (await h (SetxLayer layer parent)) (\<lambda>_. io_return ids'))
           | OtherFeature ty \<Rightarrow>
               io_bind (emit (OutputsError ''Unsupported feature type {0}'' ty))
                 (\<lambda>_. io_return s))
         (\<lambda>r. r = s + (if fallback_named h layerNames x then 1 else 0))"
    proof (cases x)
      case (Feature g props)
      show ?thesis unfolding Feature Feature.case
        by (rule ensures_bind[OF ensures_loadFeature])
           (auto intro!: ensures_bind_any ensures_return)
    next
      case (OtherFeature ty)
      show ?thesis unfolding OtherFeature Feature.case
        by (intro ensures_bind_any ensures_return) (simp add: fallback_named_def)
    qed
  qed
  then show ?thesis by (simp add: count_fold)
qed

lemma ensures_loadShapes_from:
  "ensures (loadShapes_from h root_layer layerNames n i geoJSONs ids)
     (\<lambda>r. r = ids + length (filter (fallback_named h layerNames) (all_features geoJSONs)))"
proof (induction geoJSONs arbitrary: i ids)
  case Nil
  show ?case by (simp add: all_features_def ensures_return)
next
  case (Cons entry rest)
  obtain name geojson where e: "entry = (name, geojson)" by (cases entry)
  have step: "ensures (case geojson of
          FeatureCollection features \<Rightarrow>
            (let percents = real i * 100 / real n in
             io_bind (emit (ProgressLabel (int_toString (round percents) @ ''%''))) (\<lambda>_.
             io_bind (emit (ProgressPercents percents)) (\<lambda>_.
             io_bind (emit (ProgressDetails name)) (\<lambda>_.
             io_bind (await h (LayersAdd
                        [(''$type'', TypeItem ''SmdxElement''), (''name'', Text name)])) (\<lambda>parent.
             io_bind (emit (SetDisabled parent)) (\<lambda>_.
             io_bind (await h (SetxLayer parent root_layer)) (\<lambda>_.
               loadShapes_features h parent layerNames features ids)))))))
        | OtherGeoJSON ty \<Rightarrow>
            io_bind (emit (OutputsError ''Unsupported GeoJSON type {0}'' ty))
              (\<lambda>_. io_return ids))
     (\<lambda>r. r = ids + length (filter (fallback_named h layerNames) (all_features [entry])))"
  proof (cases geojson)
    case (FeatureCollection features)
    show ?thesis unfolding FeatureCollection e
      by (simp add: Let_def all_features_def, intro ensures_bind_any)
         (rule ensures_loadShapes_features)
  next
    case (OtherGeoJSON ty)
    show ?thesis unfolding OtherGeoJSON e
      by (simp add: all_features_def, intro ensures_bind_any ensures_return) simp
  qed
  have app: "all_features (entry # rest) = all_features [entry] @ all_features rest"
    by (simp add: all_features_def)
  show ?case
    unfolding e loadShapes_from.simps
  proof (rule ensures_bind[OF step[unfolded e]])
    fix x
    assume x: "x = ids + length (filter (fallback_named h layerNames)
                      (all_features [(name, geojson)]))"
    show "ensures (loadShapes_from h root_layer layerNames n (i + 1) rest x)
       (\<lambda>r. r = ids + length (filter (fallback_named h layerNames)
                     (all_features ((name, geojson) # rest))))"
      using Cons.IH[of "i + 1" x] by (simp add: app[unfolded e] x add.assoc)
  qed
qed

lemma ensures_loadShapes:
  "ensures (loadShapes h geoJSONs root_layer layerNames ids)
     (\<lambda>r. r = ids + length (filter (fallback_named h layerNames) (all_features geoJSONs)))"
  unfolding loadShapes_def
  by (intro ensures_bind_any) (rule ensures_loadShapes_from)

lemma of_char_digit: "d < 10 \<Longrightarrow> of_char (digit_char d) = (48 + d :: nat)"
proof -
  assume "d < 10"
  then have "d \<in> {0, 1, 2, 3, 4, 5, 6, 7, 8, 9}" by auto
  then show ?thesis by (auto simp: digit_char_def)
qed

lemma decimal_value_snoc:
  "decimal_value (s @ [c]) = 10 * decimal_value s + (of_char c - 48)"
  by (simp add: decimal_value_def)

lemma decimal_value_nat_toString: "decimal_value (nat_toString n) = n"
proof (induction n rule: nat_toString.induct)
  case (1 n)
  show ?case
  proof (cases "n < 10")
    case True
    then show ?thesis
      by (simp add: nat_toString.simps[of n] decimal_value_def of_char_digit)
  next
    case False
    then show ?thesis
      using 1 by (simp add: nat_toString.simps[of n] decimal_value_snoc of_char_digit)
  qed
qed

lemma nat_toString_42: "nat_toString 42 = ''42''"
  by code_simp

text \<open>
  C1, as the specification states it, fails: a feature that has an attribute called
  \<open>name\<close> is never named from the counter. With no approved field at all, no candidate
  yields a usable value for the feature \<open>{name: "Lot 1", area: 120.5}\<close>; yet its layer
  data keeps the typed attribute as \<open>name\<close>, not the text \<open>1\<close>, and the counter stays 0.
\<close>

theorem fallback_counterexample:
  "loadFeature_layerData sample_host
       [(''name'', PString ''Lot 1''), (''area'', PNumber (Finite (241 / 2)))] [] 0
     = ([(''name'', TypedValue (PString ''Lot 1'') (Some ''string'')),
         (''area'', TypedValue (PNumber (Finite (241 / 2))) (Some ''float'')),
         (''$type'', TypeItem ''SmdxElement'')], 0)"
  by (simp add: loadFeature_layerData_def assignLayerName_def featureProps_def set_property_def)

text \<open>
  C1, amended. For every feature that has no attribute called \<open>name\<close> and whose
  attribute map yields no usable value for any approved candidate field, the name of the
  layer data is the decimal string of the counter before the feature plus 1, and the
  counter afterwards is that counter plus 1. A run of \<open>loadShapes\<close> that returns leaves the
  counter at its value at the start (\<open>import\<close> starts it at 0) plus the number of features
  named from the counter: it is never reset in between. A feature that has an attribute
  called \<open>name\<close> is never given a fallback name, whatever the approved candidates are: the
  \<open>name\<close> of its layer data is the typed attribute made by \<open>featurePropValue\<close>, it is
  not among the features named from the counter, and it leaves the counter as it is.
\<close>

theorem fallback_layer_name:
  "(map_of props ''name'' = None
      \<and> (\<forall>c\<in>set layerNames. spec_formatted h (get_property props c) = None) \<longrightarrow>
        map_of (fst (loadFeature_layerData h props layerNames ids)) ''name''
          = Some (Text (nat_toString (ids + 1)))
      \<and> decimal_value (nat_toString (ids + 1)) = ids + 1
      \<and> snd (loadFeature_layerData h props layerNames ids) = ids + 1
      \<and> fallback_named h layerNames (Feature geometry props))
   \<and> (fst (loadShapes h geoJSONs root_layer layerNames ids w) = Inr ids' \<longrightarrow>
        ids' = ids + length (filter (fallback_named h layerNames) (all_features geoJSONs)))
   \<and> (distinct (map fst props) \<and> map_of props ''name'' = Some v \<longrightarrow>
        map_of (fst (loadFeature_layerData h props layerNames ids)) ''name''
          = Some (fst (featurePropValue h v))
      \<and> snd (loadFeature_layerData h props layerNames ids) = ids
      \<and> \<not> fallback_named h layerNames (Feature geometry props))"
proof (intro conjI impI)
  assume a: "map_of props ''name'' = None
      \<and> (\<forall>c\<in>set layerNames. spec_formatted h (get_property props c) = None)"
  then have l: "assignLayerName_loop h props layerNames = None"
    using loop_not_usable by blast
  show "map_of (fst (loadFeature_layerData h props layerNames ids)) ''name''
          = Some (Text (nat_toString (ids + 1)))"
    using a l layerData_no_name[of props h]
    by (simp add: loadFeature_layerData_def assignLayerName_def update_conv')
  show "decimal_value (nat_toString (ids + 1)) = ids + 1"
    by (rule decimal_value_nat_toString)
  show "fallback_named h layerNames (Feature geometry props)"
    using a l by (simp add: fallback_named_def)
  then show "snd (loadFeature_layerData h props layerNames ids) = ids + 1"
    by (simp add: layerData_counter[of h props layerNames ids geometry])
next
  assume "fst (loadShapes h geoJSONs root_layer layerNames ids w) = Inr ids'"
  then show "ids' = ids + length (filter (fallback_named h layerNames) (all_features geoJSONs))"
    using ensures_loadShapes[of h geoJSONs root_layer layerNames ids]
    unfolding ensures_def by blast
next
  assume a: "distinct (map fst props) \<and> map_of props ''name'' = Some v"
  then have d: "loadFeature_layerData h props layerNames ids
          = (AList.update ''$type'' (TypeItem ''SmdxElement'') (fst (featureProps h props)), ids)"
    using layerData_named[of props h layerNames ids] by simp
  show "map_of (fst (loadFeature_layerData h props layerNames ids)) ''name''
          = Some (fst (featurePropValue h v))"
    using a layerData_name_typed[of props v h] by (simp add: d)
  show "snd (loadFeature_layerData h props layerNames ids) = ids"
    by (simp add: d)
  show "\<not> fallback_named h layerNames (Feature geometry props)"
    using a by (simp add: fallback_named_def)
qed

lemma loadShapes_sample_run:
  "loadShapes sample_host
     [(''parcels'', FeatureCollection
        [Feature (Point (Vec2 1 2)) [(''area'', PNumber NaN)],
         Feature (Point (Vec2 3 4)) [(''name'', PString ''Lot 1'')]])]
     0 [''area''] 0 []
   = (Inr 1,
      [ProgressIndeterminate False, ProgressLabel ''0%'', ProgressPercents 0,
       ProgressDetails ''parcels'',
       LayersAdd [(''$type'', TypeItem ''SmdxElement''), (''name'', Text ''parcels'')],
       SetDisabled 4, SetxLayer 4 0,
       LayersAdd [(''area'', TypedValue (PNumber NaN) (Some ''float'')),
                  (''$type'', TypeItem ''SmdxElement''), (''name'', Text ''1'')],
       SetDisabled 7, AddCircle (1, 2, 0) (1 / 200), SetxLayer 9 7, SetxLayer 7 4,
       LayersAdd [(''name'', TypedValue (PString ''Lot 1'') (Some ''string'')),
                  (''$type'', TypeItem ''SmdxElement'')],
       SetDisabled 12, AddCircle (3, 4, 0) (1 / 200), SetxLayer 14 12, SetxLayer 12 4])"
  by (simp add: loadShapes_def loadShapes_features_def loadFeature_def loadFeature_layerData_def
      assignLayerName_def featureProps_def featureGeometry_circle_def run_simps sample_host_def
      nat_toString_1 SCALE_def int_toString_def nat_toString.simps[of 0] digit_char_def
      set_property_def get_property_def Object_prototype_def)

theorem fallback_layer_name_witness:
  "map_of (fst (loadFeature_layerData sample_host [(''area'', PNumber NaN)]
       [''area'', ''owner''] 41)) ''name'' = Some (Text ''42'')
   \<and> snd (loadFeature_layerData sample_host [(''area'', PNumber NaN)]
       [''area'', ''owner''] 41) = 42
   \<and> map_of (fst (loadFeature_layerData sample_host [(''name'', PString ''Lot 1'')]
       [''area''] 0)) ''name'' = Some (TypedValue (PString ''Lot 1'') (Some ''string''))
   \<and> snd (loadFeature_layerData sample_host [(''name'', PString ''Lot 1'')] [''area''] 0) = 0
   \<and> fst (loadShapes sample_host
        [(''parcels'', FeatureCollection
           [Feature (Point (Vec2 1 2)) [(''area'', PNumber NaN)],
            Feature (Point (Vec2 3 4)) [(''name'', PString ''Lot 1'')]])]
        0 [''area''] 0 []) = Inr 1
   \<and> length (filter (fallback_named sample_host [''area''])
        (all_features [(''parcels'', FeatureCollection
           [Feature (Point (Vec2 1 2)) [(''area'', PNumber NaN)],
            Feature (Point (Vec2 3 4)) [(''name'', PString ''Lot 1'')]])])) = 1"
proof -
  let ?run = "[(''parcels'', FeatureCollection
           [Feature (Point (Vec2 1 2)) [(''area'', PNumber NaN)],
            Feature (Point (Vec2 3 4)) [(''name'', PString ''Lot 1'')]])]"
  have 1: "map_of [(''area'', PNumber NaN)] ''name'' = None
      \<and> (\<forall>c\<in>set [''area'', ''owner''].
            spec_formatted sample_host (get_property [(''area'', PNumber NaN)] c) = None)"
    by (simp add: spec_formatted_def get_property_def Object_prototype_def)
  have 2: "fst (loadShapes sample_host ?run 0 [''area''] 0 []) = Inr 1"
    by (simp add: loadShapes_sample_run)
  have 3: "distinct (map fst [(''name'', PString ''Lot 1'')])
      \<and> map_of [(''name'', PString ''Lot 1'')] ''name'' = Some (PString ''Lot 1'')"
    by simp
  show ?thesis
    using fallback_layer_name [where props = "[(''area'', PNumber NaN)]"
        and layerNames = "[''area'', ''owner'']" and h = sample_host and ids = 41] 1
      fallback_layer_name [where props = "[(''name'', PString ''Lot 1'')]"
        and v = "PString ''Lot 1''"
        and layerNames = "[''area'']" and h = sample_host and ids = 0
        and geoJSONs = ?run and root_layer = 0 and w = "[]" and ids' = 1] 2 3
    by (simp add: nat_toString_42)
qed

subsection \<open>Sessions\<close>

lemma emits_foldM:
  "(\<And>x s. x \<in> set xs \<Longrightarrow> emits pr (f x s) (g x)) \<Longrightarrow>
   emits pr (io_foldM f xs s) (concat (map g xs))"
proof (induction xs arbitrary: s)
  case Nil
  show ?case by (simp add: emits_return)
next
  case (Cons x xs)
  show ?case
    using Cons.prems by (simp, intro emits_bind Cons.IH) simp_all
qed

lemma concat_nils: "concat (map (\<lambda>x. []) xs) = []"
  by (induction xs) simp_all

lemma quiet_foldM:
  "(\<And>x s. emits pr (f x s) []) \<Longrightarrow> emits pr (io_foldM f xs s) []"
  using emits_foldM[of xs pr f "\<lambda>x. []" s] by (simp add: concat_nils)

lemma quiet_mapM:
  "(\<And>x. emits pr (f x) []) \<Longrightarrow> emits pr (io_mapM f xs) []"
  using emits_mapM[of xs pr f "\<lambda>x. []"] by (simp add: concat_nils)

lemma quiet_emit_all:
  "(\<And>e. e \<in> set es \<Longrightarrow> pr e = []) \<Longrightarrow> emits pr (emit_all es) []"
  by (auto simp: emits_def emit_all_def)

lemmas quiet_intros = emits_bind_nil emits_return emits_await emits_emit quiet_mapM quiet_foldM

lemma quiet_featureGeometry_circle: "emits session_events (featureGeometry_circle h layer c) []"
  unfolding featureGeometry_circle_def by (intro quiet_intros) simp_all

lemma quiet_featureGeometry_polyline: "emits session_events (featureGeometry_polyline h layer cs) []"
  unfolding featureGeometry_polyline_def Let_def by (intro quiet_intros) simp_all

lemma quiet_featureGeometry_line: "emits session_events (featureGeometry_line h layer cs) []"
  unfolding featureGeometry_line_def
  by (cases "length cs = 2") (simp_all add: quiet_featureGeometry_polyline, intro quiet_intros, simp_all)

lemma quiet_featureGeometry: "emits session_events (featureGeometry h layer g) []"
  by (cases g)
     (simp_all, (intro quiet_intros quiet_featureGeometry_circle quiet_featureGeometry_polyline quiet_featureGeometry_line, simp?)+)

lemma featureProps_logs:
  "e \<in> set (snd (featureProps h props)) \<Longrightarrow> session_events e = []"
proof -
  have "e \<in> set (snd (featurePropValue h v)) \<Longrightarrow> session_events e = []" for v
    by (cases v) simp_all
  then show "e \<in> set (snd (featureProps h props)) \<Longrightarrow> session_events e = []"
    by (auto simp: featureProps_def)
qed

lemma quiet_loadFeature:
  "emits session_events (loadFeature h g props layerNames ids) []"
  unfolding loadFeature_def Let_def
  by (intro quiet_intros quiet_emit_all quiet_featureGeometry) (simp_all add: featureProps_logs)

lemma quiet_loadShapes_features:
  "emits session_events (loadShapes_features h parent layerNames features ids) []"
  unfolding loadShapes_features_def
proof (rule quiet_foldM)
  fix x s
  show "emits session_events
     (case x of
        Feature geometry props \<Rightarrow>
          io_bind (loadFeature h geometry props layerNames s) (\<lambda>(layer, ids').
            io_bind (await h (SetxLayer layer parent)) (\<lambda>_. io_return ids'))
      | OtherFeature ty \<Rightarrow>
          io_bind (emit (OutputsError ''Unsupported feature type {0}'' ty)) (\<lambda>_. io_return s))
     []"
    by (cases x) (simp_all, (intro quiet_intros quiet_loadFeature, simp_all add: split_def)+)
qed

lemma quiet_loadShapes_from:
  "emits session_events (loadShapes_from h root_layer layerNames n i geoJSONs ids) []"
proof (induction geoJSONs arbitrary: i ids)
  case Nil
  show ?case by (simp add: emits_return)
next
  case (Cons entry rest)
  obtain name geojson where e: "entry = (name, geojson)" by (cases entry)
  show ?case
    unfolding e loadShapes_from.simps
    by (rule emits_bind_nil, cases geojson)
       (simp_all add: Let_def Cons.IH, (intro quiet_intros quiet_loadShapes_features, simp_all)+)
qed

lemma quiet_loadShapes:
  "emits session_events (loadShapes h geoJSONs root_layer layerNames ids) []"
  unfolding loadShapes_def
  by (intro quiet_intros quiet_loadShapes_from) simp_all

text \<open>
  The session discipline of \<open>import\<close>. Once both sessions are open, whatever the layer
  writing in between does (it never opens or closes a session), the \<open>finally\<close> block
  calls \<open>endUpdate\<close>; it calls \<open>endEdit\<close> after it only when \<open>endUpdate\<close> has returned.
\<close>

lemma import_write_sessions:
  assumes bu: "rejects h (w @ [LayersBeginUpdate]) = None"
    and be: "rejects h (w @ [LayersBeginUpdate, LayoutEditor, BeginEdit]) = None"
  shows "\<exists>body. concat (map session_events body) = []
     \<and> snd (import_write h filename geoJSONs layerNames w)
         = w @ [LayersBeginUpdate, LayoutEditor, BeginEdit] @ body @
             (if rejects h (w @ [LayersBeginUpdate, LayoutEditor, BeginEdit] @ body
                   @ [LayersEndUpdate]) = None
              then [LayersEndUpdate, EndEdit] else [LayersEndUpdate])"
proof -
  let ?w3 = "w @ [LayersBeginUpdate, LayoutEditor, BeginEdit]"
  let ?m = "io_bind (await h (LayersAdd
                [(''$type'', TypeItem ''SmdxElement''), (''name'', Text filename)]))
              (\<lambda>root_layer. io_bind (emit (SetDisabled root_layer))
                (\<lambda>_. io_bind (loadShapes h geoJSONs root_layer layerNames 0)
                  (\<lambda>_. io_return ())))"
  let ?fin = "io_bind (await h LayersEndUpdate)
                (\<lambda>_. io_bind (await h EndEdit) (\<lambda>_. io_return ()))"
  have "emits session_events ?m []"
    by (intro quiet_intros quiet_loadShapes) simp_all
  then obtain body where body: "snd (?m ?w3) = ?w3 @ body"
      "concat (map session_events body) = []"
    unfolding emits_def by (metis prefix_Nil)
  have w: "import_write h filename geoJSONs layerNames w = try_finally ?m ?fin ?w3"
    using bu be by (simp add: import_write_def io_bind_apply await_def emit_apply)
  have fin: "snd (?fin (?w3 @ body))
      = ?w3 @ body @ (if rejects h (?w3 @ body @ [LayersEndUpdate]) = None
              then [LayersEndUpdate, EndEdit] else [LayersEndUpdate])"
    by (simp add: io_bind_apply await_def io_return_apply split: option.splits)
  have "snd (try_finally ?m ?fin ?w3) = snd (?fin (?w3 @ body))"
    using body(1) by (cases "?m ?w3"; cases "?fin (?w3 @ body)")
      (auto simp: try_finally_def split: sum.splits)
  then show ?thesis
    using body(2) fin w by (intro exI[of _ body]) simp
qed

text \<open>
  The top-level handler logs an exception after everything the body of \<open>import\<close> has
  done, and before the progress is ended.
\<close>

lemma import_handler_last:
  "snd (SHPImporter_import h workspace drawing w)
     = snd (import_body h workspace drawing (w @ [BeginProgress, CreateOutputChannel ''SHP'']))
       @ (case fst (import_body h workspace drawing
                     (w @ [BeginProgress, CreateOutputChannel ''SHP''])) of
            Inl e \<Rightarrow> [OutputsErrorExn e] | Inr u \<Rightarrow> [])
       @ [EndProgress]"
  by (cases "import_body h workspace drawing (w @ [BeginProgress, CreateOutputChannel ''SHP''])")
     (auto simp: SHPImporter_import_def run_simps split: sum.splits)

lemma quiet_sessions_within: "emits session_events m [] \<Longrightarrow> sessions_within m"
  unfolding emits_def sessions_within_def session_orders_def
  by (metis insertI1 prefix_Nil)

lemma sessions_within_bind:
  assumes m: "emits session_events m []" and k: "\<And>x. sessions_within (k x)"
  shows "sessions_within (io_bind m k)"
  unfolding sessions_within_def
proof
  fix w
  obtain e1 where e1: "snd (m w) = w @ e1" "concat (map session_events e1) = []"
    using m unfolding emits_def by (metis prefix_Nil)
  show "\<exists>evs. snd (io_bind m k w) = w @ evs
          \<and> concat (map session_events evs) \<in> session_orders"
  proof (cases "fst (m w)")
    case (Inl e)
    then have "io_bind m k w = (Inl e, w @ e1)"
      using e1(1) by (cases "m w") (simp add: io_bind_apply)
    then show ?thesis using e1(2) by (auto simp: session_orders_def intro!: exI[of _ e1])
  next
    case (Inr x)
    then have b: "io_bind m k w = k x (w @ e1)"
      using e1(1) by (cases "m w") (simp add: io_bind_apply)
    obtain e2 where e2: "snd (k x (w @ e1)) = (w @ e1) @ e2"
        "concat (map session_events e2) \<in> session_orders"
      using k[of x] unfolding sessions_within_def by blast
    have c: "concat (map session_events (e1 @ e2)) = concat (map session_events e2)"
      by (simp add: e1(2))
    have "snd (io_bind m k w) = w @ (e1 @ e2)"
      by (simp add: b e2(1))
    then show ?thesis
      using e2(2) c by metis
  qed
qed

lemma quiet_addToGroups: "emits session_events (addToGroups h groups item) []"
  unfolding addToGroups_def Let_def
  by (intro quiet_intros) (auto intro!: quiet_intros split: js_property.splits)

lemma quiet_extractGroups: "emits session_events (extractGroups h groups items) []"
proof (induction h groups items rule: extractGroups.induct)
  case (1 h groups)
  show ?case by (simp add: emits_return)
next
  case (2 h groups t m c ch items)
  show ?case
    unfolding extractGroups.simps
    by (rule emits_bind_nil, cases m)
       (simp_all add: 2 quiet_addToGroups, (intro quiet_intros 2, simp_all)+)
qed

lemma quiet_decodeGeoJSONs: "emits session_events (decodeGeoJSONs h geoJSONs propNames groups) []"
  unfolding decodeGeoJSONs_def
  by (rule quiet_foldM)
     (auto simp: Let_def split: prod.splits GeoJSON.splits intro!: quiet_intros)

lemma quiet_choose: "emits session_events (choosePossibleLayerNameProps h propNames) []"
  unfolding choosePossibleLayerNameProps_def Let_def
  by (intro quiet_intros) simp_all

lemma sessions_within_import_write:
  "sessions_within (import_write h filename geoJSONs layerNames)"
  unfolding sessions_within_def
proof
  fix w
  show "\<exists>evs. snd (import_write h filename geoJSONs layerNames w) = w @ evs
          \<and> concat (map session_events evs) \<in> session_orders"
  proof (cases "rejects h (w @ [LayersBeginUpdate])")
    case (Some x)
    then have "snd (import_write h filename geoJSONs layerNames w) = w @ [LayersBeginUpdate]"
      by (simp add: import_write_def io_bind_apply await_def)
    then show ?thesis
      by (intro exI[of _ "[LayersBeginUpdate]"]) (simp add: session_orders_def)
  next
    case None
    note bu = this
    show ?thesis
    proof (cases "rejects h (w @ [LayersBeginUpdate, LayoutEditor, BeginEdit])")
      case (Some x)
      then have "snd (import_write h filename geoJSONs layerNames w)
          = w @ [LayersBeginUpdate, LayoutEditor, BeginEdit]"
        using bu by (simp add: import_write_def io_bind_apply await_def emit_apply)
      then show ?thesis
        by (intro exI[of _ "[LayersBeginUpdate, LayoutEditor, BeginEdit]"])
           (simp add: session_orders_def)
    next
      case None
      obtain body where body: "concat (map session_events body) = []"
        "snd (import_write h filename geoJSONs layerNames w)
           = w @ [LayersBeginUpdate, LayoutEditor, BeginEdit] @ body @
               (if rejects h (w @ [LayersBeginUpdate, LayoutEditor, BeginEdit] @ body
                     @ [LayersEndUpdate]) = None
                then [LayersEndUpdate, EndEdit] else [LayersEndUpdate])"
        using import_write_sessions[OF bu None, of filename geoJSONs layerNames] by blast
      show ?thesis
        by (intro exI[of _ "[LayersBeginUpdate, LayoutEditor, BeginEdit] @ body @
               (if rejects h (w @ [LayersBeginUpdate, LayoutEditor, BeginEdit] @ body
                     @ [LayersEndUpdate]) = None
                then [LayersEndUpdate, EndEdit] else [LayersEndUpdate])"])
           (simp add: body session_orders_def)
    qed
  qed
qed

lemma sessions_within_import_body: "sessions_within (import_body h workspace drawing)"
proof (cases "case layouts drawing of None \<Rightarrow> None | Some ls \<Rightarrow> model ls")
  case None
  have "emits session_events (import_body h workspace drawing) []"
    unfolding import_body_def Let_def None
    by (simp, intro quiet_intros) simp_all
  then show ?thesis by (rule quiet_sessions_within)
next
  case (Some layout)
  have k: "sessions_within (io_bind (choosePossibleLayerNameProps h pn)
             (\<lambda>layerNames. import_write h fn gs layerNames))" for pn fn gs
    by (intro sessions_within_bind quiet_choose sessions_within_import_write)
  show ?thesis
    unfolding import_body_def Let_def Some
    by (simp, intro sessions_within_bind quiet_intros quiet_extractGroups quiet_decodeGeoJSONs)
       (simp_all add: split_def k)
qed

text \<open>
  On every host and every input, a run of \<open>import\<close> calls the session functions in the
  order \<open>beginUpdate\<close>, \<open>beginEdit\<close>, \<open>endUpdate\<close>, \<open>endEdit\<close>, each at most once, and
  stops somewhere along that order.
\<close>

lemma import_session_order:
  "\<exists>evs. snd (SHPImporter_import h workspace drawing w) = w @ evs
     \<and> concat (map session_events evs) \<in> session_orders"
proof -
  let ?w0 = "w @ [BeginProgress, CreateOutputChannel ''SHP'']"
  obtain evs where evs: "snd (import_body h workspace drawing ?w0) = ?w0 @ evs"
      "concat (map session_events evs) \<in> session_orders"
    using sessions_within_import_body[of h workspace drawing]
    unfolding sessions_within_def by blast
  let ?tail = "(case fst (import_body h workspace drawing ?w0) of
                  Inl e \<Rightarrow> [OutputsErrorExn e] | Inr u \<Rightarrow> []) @ [EndProgress]"
  have q: "concat (map session_events ?tail) = []"
    by (cases "fst (import_body h workspace drawing ?w0)") simp_all
  have "snd (SHPImporter_import h workspace drawing w)
      = w @ ([BeginProgress, CreateOutputChannel ''SHP''] @ evs @ ?tail)"
    by (simp add: import_handler_last evs(1))
  moreover have "concat (map session_events
      ([BeginProgress, CreateOutputChannel ''SHP''] @ evs @ ?tail))
        = concat (map session_events evs)"
    using q by simp
  ultimately show ?thesis using evs(2) by metis
qed

text \<open>
  C7 at a host whose \<open>drawing.layers.endUpdate()\<close> throws. Both sessions have been
  acquired and the layers written; the \<open>finally\<close> block calls \<open>endUpdate\<close>, whose
  exception leaves the block at once: \<open>editor.endEdit()\<close> is never called, and the
  exception reaches the top-level handler, which logs it, with the edit session still
  open.
\<close>

theorem import_endUpdate_throws:
  "SHPImporter_import endUpdate_failing_host
      \<lparr> origin = None, root = WorkspaceItem ''survey'' MimeFolder (Bytes [] 0 0) [] \<rparr>
      \<lparr> layouts = Some \<lparr> model = Some 0 \<rparr> \<rparr> []
   = (Inr (),
      [BeginProgress, CreateOutputChannel ''SHP'', OutputsInfo ''survey'',
       ProgressIndeterminate True, ProgressDetails [], Propfind ''survey'',
       ShowQuickPick [] [] True, LayersBeginUpdate, LayoutEditor, BeginEdit,
       LayersAdd [(''$type'', TypeItem ''SmdxElement''), (''name'', Text ''survey'')],
       SetDisabled 10, ProgressIndeterminate False, LayersEndUpdate,
       OutputsErrorExn (HostError ''endUpdate failed''), EndProgress])"
  by (simp add: SHPImporter_import_def import_body_def import_write_def loadShapes_def
      decodeGeoJSONs_def choosePossibleLayerNameProps_def run_simps endUpdate_failing_host_def
      sample_host_def)

end
